theory Spec2Isabelle
  imports Main "HOL-Library.Sublist"
begin

section \<open>Values of the JavaScript runtime\<close>

text \<open>
  Strings are byte lists: a character outside ASCII stands as its UTF-8 bytes.
  Times are the integer milliseconds that \<^verbatim>\<open>Date.now()\<close> and \<^verbatim>\<open>getTime()\<close>
  return, HTTP status codes and the \<^verbatim>\<open>integer\<close> columns are \<open>int\<close>.
\<close>

fun show_nat :: "nat \<Rightarrow> string" where
  "show_nat n =
     (if n < 10 then [char_of (48 + n)]
      else show_nat (n div 10) @ [char_of (48 + n mod 10)])"

declare show_nat.simps [simp del]

definition show_int :: "int \<Rightarrow> string" where
  \<comment> \<open>\<^verbatim>\<open>`${n}`\<close> for an integer \<open>n\<close> (below \<open>10^21\<close> in size, where JavaScript
      still prints every digit)\<close>
  "show_int i = (if i < 0 then CHR ''-'' # show_nat (nat (- i)) else show_nat (nat i))"

definition falsy_str :: "string option \<Rightarrow> bool" where
  \<comment> \<open>\<^verbatim>\<open>!s\<close> for \<^verbatim>\<open>s: string | undefined\<close>\<close>
  "falsy_str s = (s = None \<or> s = Some [])"

definition str_or :: "string option \<Rightarrow> string \<Rightarrow> string" where
  \<comment> \<open>\<^verbatim>\<open>s || d\<close> for \<^verbatim>\<open>s: string | undefined\<close>: the empty string is falsy too\<close>
  "str_or s d = (case s of None \<Rightarrow> d | Some v \<Rightarrow> if v = [] then d else v)"

definition num_or :: "int option \<Rightarrow> string \<Rightarrow> string" where
  \<comment> \<open>\<^verbatim>\<open>`${n || d}`\<close> for \<^verbatim>\<open>n: number | undefined\<close>: zero is falsy too\<close>
  "num_or n d = (case n of None \<Rightarrow> d | Some v \<Rightarrow> if v = 0 then d else show_int v)"

text \<open>
  What a \<^verbatim>\<open>catch\<close> clause can receive. \<^verbatim>\<open>AxiosError\<close> extends \<^verbatim>\<open>Error\<close>; it
  carries \<^verbatim>\<open>code\<close>, \<^verbatim>\<open>response\<close> (status and status text) and \<^verbatim>\<open>message\<close>.
\<close>

datatype thrown =
    AxiosError "string option" "(int \<times> string) option" string
  | ErrorObj string
  | NonError

fun instanceofError :: "thrown \<Rightarrow> bool" where
  "instanceofError NonError = False"
| "instanceofError _ = True"

fun message_of :: "thrown \<Rightarrow> string" where
  "message_of (AxiosError c r m) = m"
| "message_of (ErrorObj m) = m"
| "message_of NonError = []"

text \<open>
  The HTTP client. A request either gets a response (status, status text) or fails
  without one. The client then settles the promise: a response whose status the
  caller's \<^verbatim>\<open>validateStatus\<close> rejects becomes a thrown \<^verbatim>\<open>AxiosError\<close> that carries
  the response.
\<close>

datatype http_outcome = Responded int string | Failed thrown

definition axios_settle :: "(int \<Rightarrow> bool) \<Rightarrow> http_outcome \<Rightarrow> thrown + (int \<times> string)" where
  "axios_settle validateStatus out =
     (case out of
        Failed e \<Rightarrow> Inl e
      | Responded st txt \<Rightarrow>
          if st = 0 \<or> validateStatus st then Inr (st, txt)
          else Inl (AxiosError
                 (if 400 \<le> st \<and> st < 500 then Some ''ERR_BAD_REQUEST''
                  else if 500 \<le> st \<and> st < 600 then Some ''ERR_BAD_RESPONSE'' else None)
                 (Some (st, txt))
                 (''Request failed with status code '' @ show_int st)))"

text \<open>
  A request made with the option \<^verbatim>\<open>timeout\<close>: the network answers or fails after
  \<open>elapsed\<close> milliseconds; a request that takes longer than the timeout is aborted by
  the client, which then throws an \<^verbatim>\<open>AxiosError\<close> with code \<^verbatim>\<open>ECONNABORTED\<close> (a
  timeout of zero means none). Redirects are followed inside the request: the outcome
  is the last one.
\<close>

definition axios_request ::
  "int \<Rightarrow> (int \<Rightarrow> bool) \<Rightarrow> int \<Rightarrow> http_outcome \<Rightarrow> thrown + (int \<times> string)" where
  "axios_request timeout validateStatus elapsed out =
     (if 0 < timeout \<and> timeout < elapsed
      then Inl (AxiosError (Some ''ECONNABORTED'') None
                  (''timeout of '' @ show_int timeout @ ''ms exceeded''))
      else axios_settle validateStatus out)"

definition code_str :: "string option \<Rightarrow> string" where
  \<comment> \<open>\<^verbatim>\<open>`${error.code}`\<close> for \<^verbatim>\<open>code: string | undefined\<close>\<close>
  "code_str code = (case code of Some c \<Rightarrow> c | None \<Rightarrow> ''undefined'')"

section \<open>The health prober (index.ts, performHealthCheck)\<close>

record MonitorCheck =
  mc_monitorId :: string
  mc_url :: string
  mc_method :: string
  mc_expectedStatus :: int
  mc_headers :: "(string \<times> string) list option"
  mc_userId :: string
  mc_name :: "string option"

datatype errorType = Timeout | Network | Status | Unknown

record CheckResults =
  isUp :: bool
  responseMs :: int
  statusCode :: "int option"
  errorMessage :: "string option"
  errorType :: errorType

text \<open>
  One probe reads the clock twice and makes one request: \<open>pe_start\<close> is the
  \<^verbatim>\<open>Date.now()\<close> before the request, \<open>pe_end\<close> the one after it (in the \<^verbatim>\<open>try\<close> block
  or in the \<^verbatim>\<open>catch\<close> block); \<open>pe_elapsed\<close> is the time in milliseconds the target
  takes to answer or to fail, \<open>pe_http\<close> what it does then. The request is made with
  \<^verbatim>\<open>timeout: 10000\<close> and \<^verbatim>\<open>validateStatus: () => true\<close>. The network reports a
  timeout of its own with code \<^verbatim>\<open>ETIMEDOUT\<close>, a refused connection with
  \<^verbatim>\<open>ECONNREFUSED\<close>, an unresolvable host with \<^verbatim>\<open>ENOTFOUND\<close>.
\<close>

record probe_env =
  pe_start :: int
  pe_elapsed :: int
  pe_http :: http_outcome
  pe_end :: int

definition classify_error :: "thrown \<Rightarrow> int \<Rightarrow> int option \<times> string option \<times> errorType" where
  \<comment> \<open>the \<^verbatim>\<open>catch\<close> block, lines 76 to 92: status code, message and type it assigns\<close>
  "classify_error error ms =
     (case error of
        AxiosError code response msg \<Rightarrow>
          if code = Some ''ECONNABORTED'' \<or> code = Some ''ETIMEDOUT'' then
            (None, Some (''Request timeout after '' @ show_int ms @ ''ms''), Timeout)
          else if code = Some ''ECONNREFUSED'' \<or> code = Some ''ENOTFOUND'' then
            (None, Some (''Network error: '' @ code_str code), Network)
          else
            (case response of
               Some (st, txt) \<Rightarrow>
                 if st \<noteq> 0 then
                   (Some st, Some (''HTTP '' @ show_int st @ '': '' @ txt), Status)
                 else (None, Some (str_or (Some msg) ''Unknown axios error''), Unknown)
             | None \<Rightarrow> (None, Some (str_or (Some msg) ''Unknown axios error''), Unknown))
      | ErrorObj msg \<Rightarrow> (None, Some msg, Unknown)
      | NonError \<Rightarrow> (None, Some ''Unknown error occurred'', Unknown))"

definition performHealthCheck :: "MonitorCheck \<Rightarrow> probe_env \<Rightarrow> CheckResults" where
  "performHealthCheck monitor env =
     (case axios_request 10000 (\<lambda>st. True) (pe_elapsed env) (pe_http env) of
        Inr (st, txt) \<Rightarrow>
          \<lparr> isUp = (st = mc_expectedStatus monitor),
            responseMs = pe_end env - pe_start env,
            statusCode = Some st,
            errorMessage =
              (if st \<noteq> mc_expectedStatus monitor
               then Some (''Expected '' @ show_int (mc_expectedStatus monitor)
                          @ '', got '' @ show_int st)
               else None),
            errorType = (if st \<noteq> mc_expectedStatus monitor then Status else Unknown) \<rparr>
      | Inl error \<Rightarrow>
          (case classify_error error (pe_end env - pe_start env) of
             (sc, em, et) \<Rightarrow>
               \<lparr> isUp = False,
                 responseMs = pe_end env - pe_start env,
                 statusCode = sc,
                 errorMessage = em,
                 errorType = et \<rparr>))"

section \<open>The notification dispatcher (notification.ts)\<close>

datatype priority = Low | Medium | High | Critical

datatype meta_value = MStr string | MNum int | MUndefined

record NotificationPayload =
  np_userId :: string
  np_title :: string
  np_message :: string
  np_priority :: "priority option"
  np_metadata :: "(string \<times> meta_value) list option"

record NotificationResult =
  nr_channelId :: string
  nr_type :: string
  nr_success :: bool
  nr_error :: "string option"

text \<open>A row of the table \<^verbatim>\<open>notification_channel\<close> (the columns the dispatcher reads).\<close>

record notificationChannel =
  ch_id :: string
  ch_userId :: string
  ch_type :: string
  ch_value :: string

text \<open>
  What the dispatcher meets outside the program: whether the module-level mail
  \<^verbatim>\<open>transporter\<close> was created, the variable \<^verbatim>\<open>SMTP_FROM\<close>, what the query for the
  user's channels does (\<open>Some e\<close>: it throws \<open>e\<close>), and for each channel row what
  its one delivery does: \<^verbatim>\<open>transporter.sendMail\<close> (\<open>Some e\<close>: it throws \<open>e\<close>) or the
  HTTP POST. The deliveries run concurrently and share nothing, so each has an outcome
  of its own. The mail and the JSON bodies that \<^verbatim>\<open>sendEmail\<close> and \<^verbatim>\<open>sendWebhook\<close>
  build from title, message and priority go to the outside only; they are not part of
  the model.
\<close>

record notify_env =
  ne_transporter :: bool
  ne_SMTP_FROM :: "string option"
  ne_select :: "thrown option"
  ne_sendMail :: "notificationChannel \<Rightarrow> thrown option"
  ne_post :: "notificationChannel \<Rightarrow> http_outcome"

definition sendEmail :: "notify_env \<Rightarrow> thrown option \<Rightarrow> thrown option" where
  \<comment> \<open>\<open>None\<close>: the promise resolves; \<open>Some e\<close>: it rejects with \<open>e\<close>\<close>
  "sendEmail env sendMail =
     (if \<not> ne_transporter env then Some (ErrorObj ''Email transporter not available'')
      else if falsy_str (ne_SMTP_FROM env)
        then Some (ErrorObj ''SMTP_FROM environment variable not set'')
      else sendMail)"

definition sendWebhook :: "http_outcome \<Rightarrow> thrown option" where
  "sendWebhook post =
     (case axios_settle (\<lambda>status. status < 500) post of
        Inl e \<Rightarrow> Some e
      | Inr r \<Rightarrow> None)"

definition deliver :: "notify_env \<Rightarrow> notificationChannel \<Rightarrow> thrown option" where
  \<comment> \<open>the \<^verbatim>\<open>switch\<close> on \<^verbatim>\<open>channel.type\<close>, lines 195 to 208\<close>
  "deliver env channel =
     (if ch_type channel = ''email'' then sendEmail env (ne_sendMail env channel)
      else if ch_type channel = ''slack'' \<or> ch_type channel = ''discord''
              \<or> ch_type channel = ''webhook''
        then sendWebhook (ne_post env channel)
      else Some (ErrorObj (''Unsupported channel type: '' @ ch_type channel)))"

definition channel_task :: "notify_env \<Rightarrow> notificationChannel \<Rightarrow> NotificationResult" where
  \<comment> \<open>the function mapped over the channels, lines 193 to 224\<close>
  "channel_task env channel =
     (case deliver env channel of
        None \<Rightarrow>
          \<lparr> nr_channelId = ch_id channel, nr_type = ch_type channel,
            nr_success = True, nr_error = None \<rparr>
      | Some error \<Rightarrow>
          \<lparr> nr_channelId = ch_id channel, nr_type = ch_type channel,
            nr_success = False,
            nr_error = Some (if instanceofError error then message_of error
                             else ''Unknown error'') \<rparr>)"

text \<open>
  \<^verbatim>\<open>Promise.allSettled\<close> and the \<^verbatim>\<open>forEach\<close> over its result. A task catches what
  its delivery throws, so its promise is always fulfilled.
\<close>

datatype 'a settled = Fulfilled 'a | Rejected thrown

definition allSettled ::
  "(notificationChannel \<Rightarrow> NotificationResult) \<Rightarrow> notificationChannel list
     \<Rightarrow> NotificationResult settled list" where
  "allSettled task channels = map (\<lambda>channel. Fulfilled (task channel)) channels"

definition push_settled ::
  "notificationChannel list \<Rightarrow> NotificationResult settled list \<Rightarrow> NotificationResult list" where
  "push_settled channels settlementResults =
     map (\<lambda>(result, channel).
            case result of
              Fulfilled v \<Rightarrow> v
            | Rejected reason \<Rightarrow>
                \<lparr> nr_channelId = ch_id channel, nr_type = ch_type channel,
                  nr_success = False,
                  nr_error = Some (str_or (Some (message_of reason)) ''Promise rejected'') \<rparr>)
         (zip settlementResults channels)"

definition notifyUser ::
  "notify_env \<Rightarrow> notificationChannel list \<Rightarrow> NotificationPayload
     \<Rightarrow> thrown + NotificationResult list" where
  \<comment> \<open>\<open>Inl e\<close>: the call throws \<open>e\<close>. The second argument is the channel table.\<close>
  "notifyUser env tbl payload =
     (if np_userId payload = [] \<or> np_title payload = [] \<or> np_message payload = []
      then Inl (ErrorObj ''Missing required notification parameters'')
      else
        (case ne_select env of
           Some e \<Rightarrow> Inl e
         | None \<Rightarrow>
             let channels = filter (\<lambda>c. ch_userId c = np_userId payload) tbl
             in if length channels = 0 then Inr []
                else Inr (push_settled channels (allSettled (channel_task env) channels))))"


section \<open>Notification messages (index.ts, generateNotificationMessages)\<close>

definition nl :: string where
  "nl = [CHR 0x0A]"

text \<open>The pictographs of the templates, as UTF-8.\<close>

definition check_mark :: string where
  "check_mark = [CHR 0xE2, CHR 0x9C, CHR 0x85]"

definition link_sign :: string where
  "link_sign = [CHR 0xF0, CHR 0x9F, CHR 0x94, CHR 0x97]"

definition stopwatch :: string where
  "stopwatch = [CHR 0xE2, CHR 0x8F, CHR 0xB1, CHR 0xEF, CHR 0xB8, CHR 0x8F]"

definition bar_chart :: string where
  "bar_chart = [CHR 0xF0, CHR 0x9F, CHR 0x93, CHR 0x8A]"

definition clock_sign :: string where
  "clock_sign = [CHR 0xF0, CHR 0x9F, CHR 0x95, CHR 0x92]"

definition siren :: string where
  "siren = [CHR 0xF0, CHR 0x9F, CHR 0x9A, CHR 0xA8]"

definition cross_mark :: string where
  "cross_mark = [CHR 0xE2, CHR 0x9D, CHR 0x8C]"

definition warning_sign :: string where
  "warning_sign = [CHR 0xE2, CHR 0x9A, CHR 0xA0, CHR 0xEF, CHR 0xB8, CHR 0x8F]"

definition light_bulb :: string where
  "light_bulb = [CHR 0xF0, CHR 0x9F, CHR 0x92, CHR 0xA1]"

definition bullet :: string where
  "bullet = [CHR 0xE2, CHR 0x80, CHR 0xA2]"

definition getTroubleshootingTips :: "errorType \<Rightarrow> string" where
  "getTroubleshootingTips et =
     (case et of
        Timeout \<Rightarrow>
          light_bulb @ '' Troubleshooting tips:'' @ nl
          @ bullet @ '' Check if your server is overloaded'' @ nl
          @ bullet @ '' Verify network connectivity'' @ nl
          @ bullet @ '' Consider increasing timeout if legitimate slow response''
      | Network \<Rightarrow>
          light_bulb @ '' Troubleshooting tips:'' @ nl
          @ bullet @ '' Verify the URL is correct and accessible'' @ nl
          @ bullet @ '' Check DNS resolution'' @ nl
          @ bullet @ '' Ensure firewall/security groups allow connections''
      | Status \<Rightarrow>
          light_bulb @ '' Troubleshooting tips:'' @ nl
          @ bullet @ '' Check server logs for errors'' @ nl
          @ bullet @ '' Verify the service is running properly'' @ nl
          @ bullet @ '' Review recent deployments or changes''
      | Unknown \<Rightarrow>
          light_bulb @ '' We recommend checking your server logs and service status.'')"

record Notification =
  n_title :: string
  n_message :: string
  n_priority :: priority

definition generateNotificationMessages ::
  "string \<Rightarrow> MonitorCheck \<Rightarrow> CheckResults \<Rightarrow> bool \<Rightarrow> bool \<Rightarrow> Notification" where
  \<comment> \<open>the first argument is the text of \<^verbatim>\<open>new Date().toLocaleString()\<close>, which depends
      on the clock and the locale of the process\<close>
  "generateNotificationMessages localeNow monitor results isNewIncident isResolved =
     (let serviceName = str_or (mc_name monitor) (mc_url monitor) in
      if isResolved then
        \<lparr> n_title = check_mark @ '' Service Restored: '' @ serviceName,
          n_message =
            ''Good news! Your monitored service is back online.'' @ nl
            @ nl
            @ link_sign @ '' Service: '' @ serviceName @ nl
            @ stopwatch @ '' Response Time: '' @ show_int (responseMs results) @ ''ms'' @ nl
            @ bar_chart @ '' Status: '' @ num_or (statusCode results) ''N/A'' @ nl
            @ clock_sign @ '' Resolved at: '' @ localeNow @ nl
            @ nl
            @ ''Your service is now responding normally.'',
          n_priority = Medium \<rparr>
      else if isNewIncident then
        (let errorDetails = str_or (errorMessage results) ''Unknown error'';
             troubleshootingTips = getTroubleshootingTips (errorType results) in
         \<lparr> n_title = siren @ '' Service Down: '' @ serviceName,
           n_message =
             ''Your monitored service is currently experiencing issues.'' @ nl
             @ nl
             @ link_sign @ '' Service: '' @ serviceName @ nl
             @ cross_mark @ '' Status: '' @ errorDetails @ nl
             @ stopwatch @ '' Response Time: '' @ show_int (responseMs results) @ ''ms'' @ nl
             @ clock_sign @ '' Started at: '' @ localeNow @ nl
             @ nl
             @ troubleshootingTips @ nl
             @ nl
             @ ''We'' @ [CHR 0x27] @ ''ll continue monitoring and notify you when the service is restored.'',
           n_priority = Critical \<rparr>)
      else
        \<lparr> n_title = warning_sign @ '' Service Still Down: '' @ serviceName,
          n_message =
            ''Your service continues to experience issues.'' @ nl
            @ nl
            @ link_sign @ '' Service: '' @ serviceName @ nl
            @ cross_mark @ '' Current Status: '' @ str_or (errorMessage results) ''Unknown error'' @ nl
            @ stopwatch @ '' Latest Check: '' @ show_int (responseMs results) @ ''ms'' @ nl
            @ clock_sign @ '' Last Checked: '' @ localeNow @ nl
            @ nl
            @ ''We'' @ [CHR 0x27] @ ''re still monitoring the situation.'',
          n_priority = High \<rparr>)"

section \<open>The store (db/schema.ts)\<close>

text \<open>
  The tables the worker touches; a table is the list of its rows. A row has the columns
  the worker reads or writes and the columns an insert must supply: those declared
  \<^verbatim>\<open>notNull()\<close> without a default. The database fills the columns left out here (the
  \<^verbatim>\<open>id\<close> of a check result, \<^verbatim>\<open>created_at\<close>, \<^verbatim>\<open>updated_at\<close>) by their defaults.
  A column of type \<^verbatim>\<open>integer\<close> holds 32 bits.
\<close>

definition int4 :: "int \<Rightarrow> bool" where
  "int4 n = (- 2147483648 \<le> n \<and> n \<le> 2147483647)"

datatype status = Up | Down | Paused | UnknownStatus

datatype incidentStatus = Open | Resolved

record monitor =
  m_id :: string
  m_name :: string
  m_url :: string
  m_status :: status
  m_method :: string
  m_headers :: "(string \<times> string) list"
  m_expectedStatus :: int
  m_userId :: string

record checkResult =
  cr_userId :: "string option"
  cr_monitorId :: string
  cr_status :: status
  cr_responseMs :: int
  cr_createdAt :: int

record incident =
  i_id :: string
  i_monitorId :: string
  i_userId :: string
  i_status :: incidentStatus
  i_startAt :: int
  i_endAt :: "int option"
  i_durationMs :: "int option"
  i_errorMessage :: "string option"

record db =
  monitors :: "monitor list"
  checkResults :: "checkResult list"
  incidents :: "incident list"
  channels :: "notificationChannel list"

section \<open>The job consumer (index.ts, the processor of the worker)\<close>

text \<open>
  What one job meets outside the program: for each statement on the database whether
  it throws for a reason of the outside (\<open>je_fault\<close>: a lost connection, a row
  another client removed), what the driver throws when the database rejects a
  statement for a constraint of the schema (\<open>je_violation\<close>), the probe, the clock
  readings (\<open>je_createdAt\<close> for the check result, \<open>je_now\<close> for the incident), the
  identifier the database gives a new incident, the clock text of the message, and
  what the dispatcher meets. No transaction spans the statements: what was written
  before a statement throws stays written.
\<close>

datatype violation = NotNull string string | IntegerOutOfRange string string

datatype db_op =
    SelectMonitor | UpdateMonitor | InsertCheckResult
  | SelectIncident | UpdateIncident | InsertIncident

record job_env =
  je_fault :: "db_op \<Rightarrow> thrown option"
  je_violation :: "violation \<Rightarrow> thrown"
  je_probe :: probe_env
  je_createdAt :: int
  je_now :: int
  je_newIncidentId :: string
  je_localeNow :: string
  je_notify :: notify_env

text \<open>
  The outcome of a job: the store it leaves, the calls of \<^verbatim>\<open>notifyUser\<close> it made, each
  with what the call returned or threw (the job catches and logs it), and the error it
  re-throws to the queue, if any.
\<close>

record job_result =
  jr_db :: db
  jr_notified :: "(NotificationPayload \<times> (thrown + NotificationResult list)) list"
  jr_error :: "thrown option"

text \<open>
  Whether the database takes a statement that writes: the statement throws the fault
  of the outside, if there is one, and otherwise what the driver throws for the first
  constraint of the schema that the written values violate. Each check is given as the
  condition the schema demands and the violation reported when it fails.
\<close>

definition verdict :: "job_env \<Rightarrow> db_op \<Rightarrow> (bool \<times> violation) list \<Rightarrow> thrown option" where
  \<comment> \<open>\<open>None\<close>: the statement is carried out\<close>
  "verdict env op checks =
     (case je_fault env op of
        Some e \<Rightarrow> Some e
      | None \<Rightarrow>
          (case filter (\<lambda>(ok, v). \<not> ok) checks of
             [] \<Rightarrow> None
           | (ok, v) # rest \<Rightarrow> Some (je_violation env v)))"

definition checkResultVerdict :: "job_env \<Rightarrow> checkResult \<Rightarrow> thrown option" where
  \<comment> \<open>the table \<^verbatim>\<open>check_result\<close>: \<^verbatim>\<open>response_ms\<close> is an \<^verbatim>\<open>integer\<close>, \<^verbatim>\<open>user_id\<close> is
      \<^verbatim>\<open>notNull()\<close> and has no default (schema.ts, lines 93 and 96)\<close>
  "checkResultVerdict env row =
     verdict env InsertCheckResult
       [(int4 (cr_responseMs row), IntegerOutOfRange ''check_result'' ''response_ms''),
        (cr_userId row \<noteq> None, NotNull ''check_result'' ''user_id'')]"

definition insertCheckResult :: "job_env \<Rightarrow> db \<Rightarrow> checkResult \<Rightarrow> thrown + db" where
  \<comment> \<open>\<^verbatim>\<open>db.insert(checkResult).values(row)\<close>\<close>
  "insertCheckResult env s row =
     (case checkResultVerdict env row of
        Some e \<Rightarrow> Inl e
      | None \<Rightarrow> Inr (s\<lparr>checkResults := checkResults s @ [row]\<rparr>))"

definition findOpenIncident :: "db \<Rightarrow> string \<Rightarrow> incident option" where
  \<comment> \<open>the first row of the select on \<^verbatim>\<open>monitorId\<close> and \<^verbatim>\<open>isNull(endAt)\<close>\<close>
  "findOpenIncident s monitorId =
     find (\<lambda>i. i_monitorId i = monitorId \<and> i_endAt i = None) (incidents s)"

definition openIncidents :: "db \<Rightarrow> string \<Rightarrow> incident list" where
  \<comment> \<open>all rows that select returns: the rows of the monitor with \<^verbatim>\<open>endAt = null\<close>\<close>
  "openIncidents s monitorId =
     filter (\<lambda>i. i_monitorId i = monitorId \<and> i_endAt i = None) (incidents s)"

definition updateIncident :: "db \<Rightarrow> string \<Rightarrow> (incident \<Rightarrow> incident) \<Rightarrow> db" where
  \<comment> \<open>\<^verbatim>\<open>db.update(incident).set(...).where(eq(incident.id, id))\<close>\<close>
  "updateIncident s ident f =
     s\<lparr>incidents := map (\<lambda>i. if i_id i = ident then f i else i) (incidents s)\<rparr>"

definition incidentErrorMessage :: "CheckResults \<Rightarrow> string" where
  \<comment> \<open>\<^verbatim>\<open>results.errorMessage || `HTTP ${results.statusCode || 'Unknown'}`\<close>\<close>
  "incidentErrorMessage results =
     str_or (errorMessage results) (''HTTP '' @ num_or (statusCode results) ''Unknown'')"

definition healthCheckInput :: "monitor \<Rightarrow> MonitorCheck" where
  \<comment> \<open>the descriptor passed to \<^verbatim>\<open>performHealthCheck\<close>, lines 208 to 216\<close>
  "healthCheckInput existingMonitor =
     \<lparr> mc_monitorId = m_id existingMonitor, mc_url = m_url existingMonitor,
       mc_method = m_method existingMonitor,
       mc_expectedStatus = m_expectedStatus existingMonitor,
       mc_headers = Some (m_headers existingMonitor), mc_userId = m_userId existingMonitor,
       mc_name = Some (m_name existingMonitor) \<rparr>"

definition notificationMonitor :: "monitor \<Rightarrow> MonitorCheck" where
  \<comment> \<open>the descriptor passed to \<^verbatim>\<open>generateNotificationMessages\<close> (no headers)\<close>
  "notificationMonitor existingMonitor =
     \<lparr> mc_monitorId = m_id existingMonitor, mc_url = m_url existingMonitor,
       mc_method = m_method existingMonitor,
       mc_expectedStatus = m_expectedStatus existingMonitor,
       mc_headers = None, mc_userId = m_userId existingMonitor,
       mc_name = Some (m_name existingMonitor) \<rparr>"

definition errorTypeName :: "errorType \<Rightarrow> string" where
  "errorTypeName et =
     (case et of Timeout \<Rightarrow> ''timeout'' | Network \<Rightarrow> ''network''
      | Status \<Rightarrow> ''status'' | Unknown \<Rightarrow> ''unknown'')"

definition handleDown ::
  "db \<Rightarrow> job_env \<Rightarrow> string \<Rightarrow> monitor \<Rightarrow> CheckResults \<Rightarrow> job_result" where
  \<comment> \<open>lines 235 to 302: the branch \<^verbatim>\<open>!results.isUp\<close>\<close>
  "handleDown s env monitorId existingMonitor results =
     (case je_fault env SelectIncident of
        Some e \<Rightarrow> \<lparr> jr_db = s, jr_notified = [], jr_error = Some e \<rparr>
      | None \<Rightarrow>
     (case findOpenIncident s monitorId of
        Some ongoingIncident \<Rightarrow>
          (case verdict env UpdateIncident
                  [(int4 (je_now env - i_startAt ongoingIncident),
                    IntegerOutOfRange ''incident'' ''duration_ms'')] of
             Some e \<Rightarrow> \<lparr> jr_db = s, jr_notified = [], jr_error = Some e \<rparr>
           | None \<Rightarrow>
               \<lparr> jr_db = updateIncident s (i_id ongoingIncident)
                   (\<lambda>i. i\<lparr> i_durationMs := Some (je_now env - i_startAt ongoingIncident),
                            i_errorMessage := Some (incidentErrorMessage results) \<rparr>),
                 jr_notified = [], jr_error = None \<rparr>)
      | None \<Rightarrow>
          (case je_fault env InsertIncident of
             Some e \<Rightarrow> \<lparr> jr_db = s, jr_notified = [], jr_error = Some e \<rparr>
           | None \<Rightarrow>
               let newIncident =
                     \<lparr> i_id = je_newIncidentId env, i_monitorId = monitorId,
                       i_userId = m_userId existingMonitor, i_status = Open,
                       i_startAt = je_now env, i_endAt = None, i_durationMs = Some 0,
                       i_errorMessage = Some (incidentErrorMessage results) \<rparr>;
                   s' = s\<lparr>incidents := incidents s @ [newIncident]\<rparr>;
                   notification = generateNotificationMessages (je_localeNow env)
                     (notificationMonitor existingMonitor) results True False;
                   payload =
                     \<lparr> np_userId = m_userId existingMonitor,
                       np_title = n_title notification,
                       np_message = n_message notification,
                       np_priority = Some (n_priority notification),
                       np_metadata = Some
                         [(''monitorId'', MStr monitorId),
                          (''incidentId'', MStr (i_id newIncident)),
                          (''url'', MStr (m_url existingMonitor)),
                          (''errorType'', MStr (errorTypeName (errorType results)))] \<rparr>
               in \<lparr> jr_db = s',
                    jr_notified = [(payload, notifyUser (je_notify env) (channels s') payload)],
                    jr_error = None \<rparr>)))"

definition handleUp ::
  "db \<Rightarrow> job_env \<Rightarrow> string \<Rightarrow> monitor \<Rightarrow> CheckResults \<Rightarrow> job_result" where
  \<comment> \<open>lines 304 to 362: the branch \<^verbatim>\<open>results.isUp\<close>\<close>
  "handleUp s env monitorId existingMonitor results =
     (case je_fault env SelectIncident of
        Some e \<Rightarrow> \<lparr> jr_db = s, jr_notified = [], jr_error = Some e \<rparr>
      | None \<Rightarrow>
     (case findOpenIncident s monitorId of
        None \<Rightarrow> \<lparr> jr_db = s, jr_notified = [], jr_error = None \<rparr>
      | Some ongoingIncident \<Rightarrow>
          (case verdict env UpdateIncident
                  [(int4 (je_now env - i_startAt ongoingIncident),
                    IntegerOutOfRange ''incident'' ''duration_ms'')] of
             Some e \<Rightarrow> \<lparr> jr_db = s, jr_notified = [], jr_error = Some e \<rparr>
           | None \<Rightarrow>
               let endTime = je_now env;
                   totalDuration = endTime - i_startAt ongoingIncident;
                   s' = updateIncident s (i_id ongoingIncident)
                          (\<lambda>i. i\<lparr> i_endAt := Some endTime,
                                   i_durationMs := Some totalDuration \<rparr>);
                   notification = generateNotificationMessages (je_localeNow env)
                     (notificationMonitor existingMonitor) results False True;
                   payload =
                     \<lparr> np_userId = m_userId existingMonitor,
                       np_title = n_title notification,
                       np_message = n_message notification,
                       np_priority = Some (n_priority notification),
                       np_metadata = Some
                         [(''monitorId'', MStr monitorId),
                          (''incidentId'', MStr (i_id ongoingIncident)),
                          (''url'', MStr (m_url existingMonitor)),
                          (''downtimeDuration'', MNum totalDuration)] \<rparr>
               in \<lparr> jr_db = s',
                    jr_notified = [(payload, notifyUser (je_notify env) (channels s') payload)],
                    jr_error = None \<rparr>)))"

definition worker :: "db \<Rightarrow> job_env \<Rightarrow> string \<Rightarrow> job_result" where
  \<comment> \<open>lines 192 to 371: the processor, run on the job \<^verbatim>\<open>{monitorId}\<close>\<close>
  "worker s env monitorId =
     (case je_fault env SelectMonitor of
        Some e \<Rightarrow> \<lparr> jr_db = s, jr_notified = [], jr_error = Some e \<rparr>
      | None \<Rightarrow>
     (case find (\<lambda>m. m_id m = monitorId) (monitors s) of
        None \<Rightarrow> \<lparr> jr_db = s, jr_notified = [], jr_error = None \<rparr>
      | Some existingMonitor \<Rightarrow>
          let results = performHealthCheck (healthCheckInput existingMonitor) (je_probe env)
          in
          (case je_fault env UpdateMonitor of
             Some e \<Rightarrow> \<lparr> jr_db = s, jr_notified = [], jr_error = Some e \<rparr>
           | None \<Rightarrow>
               let s1 = s\<lparr>monitors :=
                          map (\<lambda>m. if m_id m = monitorId
                                    then m\<lparr>m_status := (if isUp results then Up else Down)\<rparr>
                                    else m)
                              (monitors s)\<rparr>
               in
               (case insertCheckResult env s1
                       \<lparr> cr_userId = None, cr_monitorId = monitorId,
                         cr_status = (if isUp results then Up else Down),
                         cr_responseMs = responseMs results,
                         cr_createdAt = je_createdAt env \<rparr> of
                  Inl e \<Rightarrow> \<lparr> jr_db = s1, jr_notified = [], jr_error = Some e \<rparr>
                | Inr s2 \<Rightarrow>
                    if \<not> isUp results
                    then handleDown s2 env monitorId existingMonitor results
                    else handleUp s2 env monitorId existingMonitor results))))"

section \<open>Jobs in flight together\<close>

text \<open>
  The worker runs up to ten jobs at once. A job gives up control at each \<^verbatim>\<open>await\<close>, so
  the statements of different jobs interleave on the one store; each statement is
  atomic. \<open>job_step\<close> is the processor cut at its statements on the database: the
  position says which statement comes next and holds the local variables
  (\<^verbatim>\<open>existingMonitor\<close>, \<^verbatim>\<open>results\<close>, \<^verbatim>\<open>ongoingIncident\<close>). The probe touches no
  store and belongs to the step that loads the monitor; \<^verbatim>\<open>notifyUser\<close> only reads the
  channel table, which no job writes, and belongs to the step of the incident.

  A step leaves the verdict of the database on its statement to \<open>je_fault\<close> alone and
  does not look at the constraints of the schema. So the steps have every run of the
  processor (where the schema rejects a statement, \<open>je_fault\<close> fails it: definition
  \<open>as_faults\<close>, lemma \<open>worker_run_from\<close>) and more runs besides: those of a database
  that takes what the schema of this repository rejects.
\<close>

datatype job_pc =
    AtSelectMonitor
  | AtUpdateMonitor monitor CheckResults
  | AtInsertCheckResult monitor CheckResults
  | AtSelectIncident monitor CheckResults
  | AtUpdateIncident monitor CheckResults incident
  | AtInsertIncident monitor CheckResults

datatype step = Continue db job_pc | Finish job_result

definition job_step :: "db \<Rightarrow> job_env \<Rightarrow> string \<Rightarrow> job_pc \<Rightarrow> step" where
  "job_step s env monitorId pc =
     (case pc of
        AtSelectMonitor \<Rightarrow>
          (case je_fault env SelectMonitor of
             Some e \<Rightarrow> Finish \<lparr> jr_db = s, jr_notified = [], jr_error = Some e \<rparr>
           | None \<Rightarrow>
               (case find (\<lambda>m. m_id m = monitorId) (monitors s) of
                  None \<Rightarrow> Finish \<lparr> jr_db = s, jr_notified = [], jr_error = None \<rparr>
                | Some existingMonitor \<Rightarrow>
                    Continue s (AtUpdateMonitor existingMonitor
                      (performHealthCheck (healthCheckInput existingMonitor) (je_probe env)))))
      | AtUpdateMonitor existingMonitor results \<Rightarrow>
          (case je_fault env UpdateMonitor of
             Some e \<Rightarrow> Finish \<lparr> jr_db = s, jr_notified = [], jr_error = Some e \<rparr>
           | None \<Rightarrow>
               Continue
                 (s\<lparr>monitors :=
                      map (\<lambda>m. if m_id m = monitorId
                                then m\<lparr>m_status := (if isUp results then Up else Down)\<rparr>
                                else m)
                          (monitors s)\<rparr>)
                 (AtInsertCheckResult existingMonitor results))
      | AtInsertCheckResult existingMonitor results \<Rightarrow>
          (case je_fault env InsertCheckResult of
             Some e \<Rightarrow> Finish \<lparr> jr_db = s, jr_notified = [], jr_error = Some e \<rparr>
           | None \<Rightarrow>
               Continue
                 (s\<lparr>checkResults := checkResults s @
                      [\<lparr> cr_userId = None, cr_monitorId = monitorId,
                         cr_status = (if isUp results then Up else Down),
                         cr_responseMs = responseMs results,
                         cr_createdAt = je_createdAt env \<rparr>]\<rparr>)
                 (AtSelectIncident existingMonitor results))
      | AtSelectIncident existingMonitor results \<Rightarrow>
          (case je_fault env SelectIncident of
             Some e \<Rightarrow> Finish \<lparr> jr_db = s, jr_notified = [], jr_error = Some e \<rparr>
           | None \<Rightarrow>
               (case findOpenIncident s monitorId of
                  Some ongoingIncident \<Rightarrow>
                    Continue s (AtUpdateIncident existingMonitor results ongoingIncident)
                | None \<Rightarrow>
                    if \<not> isUp results
                    then Continue s (AtInsertIncident existingMonitor results)
                    else Finish \<lparr> jr_db = s, jr_notified = [], jr_error = None \<rparr>))
      | AtUpdateIncident existingMonitor results ongoingIncident \<Rightarrow>
          (case je_fault env UpdateIncident of
             Some e \<Rightarrow> Finish \<lparr> jr_db = s, jr_notified = [], jr_error = Some e \<rparr>
           | None \<Rightarrow>
               if \<not> isUp results then
                 Finish
                   \<lparr> jr_db = updateIncident s (i_id ongoingIncident)
                       (\<lambda>i. i\<lparr> i_durationMs := Some (je_now env - i_startAt ongoingIncident),
                                i_errorMessage := Some (incidentErrorMessage results) \<rparr>),
                     jr_notified = [], jr_error = None \<rparr>
               else
                 (let endTime = je_now env;
                      totalDuration = endTime - i_startAt ongoingIncident;
                      s' = updateIncident s (i_id ongoingIncident)
                             (\<lambda>i. i\<lparr> i_endAt := Some endTime,
                                      i_durationMs := Some totalDuration \<rparr>);
                      notification = generateNotificationMessages (je_localeNow env)
                        (notificationMonitor existingMonitor) results False True;
                      payload =
                        \<lparr> np_userId = m_userId existingMonitor,
                          np_title = n_title notification,
                          np_message = n_message notification,
                          np_priority = Some (n_priority notification),
                          np_metadata = Some
                            [(''monitorId'', MStr monitorId),
                             (''incidentId'', MStr (i_id ongoingIncident)),
                             (''url'', MStr (m_url existingMonitor)),
                             (''downtimeDuration'', MNum totalDuration)] \<rparr>
                  in Finish
                       \<lparr> jr_db = s',
                         jr_notified =
                           [(payload, notifyUser (je_notify env) (channels s') payload)],
                         jr_error = None \<rparr>))
      | AtInsertIncident existingMonitor results \<Rightarrow>
          (case je_fault env InsertIncident of
             Some e \<Rightarrow> Finish \<lparr> jr_db = s, jr_notified = [], jr_error = Some e \<rparr>
           | None \<Rightarrow>
               (let newIncident =
                      \<lparr> i_id = je_newIncidentId env, i_monitorId = monitorId,
                        i_userId = m_userId existingMonitor, i_status = Open,
                        i_startAt = je_now env, i_endAt = None, i_durationMs = Some 0,
                        i_errorMessage = Some (incidentErrorMessage results) \<rparr>;
                    s' = s\<lparr>incidents := incidents s @ [newIncident]\<rparr>;
                    notification = generateNotificationMessages (je_localeNow env)
                      (notificationMonitor existingMonitor) results True False;
                    payload =
                      \<lparr> np_userId = m_userId existingMonitor,
                        np_title = n_title notification,
                        np_message = n_message notification,
                        np_priority = Some (n_priority notification),
                        np_metadata = Some
                          [(''monitorId'', MStr monitorId),
                           (''incidentId'', MStr (i_id newIncident)),
                           (''url'', MStr (m_url existingMonitor)),
                           (''errorType'', MStr (errorTypeName (errorType results)))] \<rparr>
                in Finish
                     \<lparr> jr_db = s',
                       jr_notified =
                         [(payload, notifyUser (je_notify env) (channels s') payload)],
                       jr_error = None \<rparr>)))"

fun pc_rank :: "job_pc \<Rightarrow> nat" where
  "pc_rank AtSelectMonitor = 5"
| "pc_rank (AtUpdateMonitor m r) = 4"
| "pc_rank (AtInsertCheckResult m r) = 3"
| "pc_rank (AtSelectIncident m r) = 2"
| "pc_rank (AtUpdateIncident m r i) = 1"
| "pc_rank (AtInsertIncident m r) = 1"

text \<open>A job running alone: its steps one after the other.\<close>

function run_from :: "db \<Rightarrow> job_env \<Rightarrow> string \<Rightarrow> job_pc \<Rightarrow> job_result" where
  "run_from s env monitorId pc =
     (case job_step s env monitorId pc of
        Finish r \<Rightarrow> r
      | Continue s' pc' \<Rightarrow> run_from s' env monitorId pc')"
  by pat_completeness auto
termination
proof (relation "measure (\<lambda>(s, env, monitorId, pc). pc_rank pc)")
  show "wf (measure (\<lambda>(s, env, monitorId, pc). pc_rank pc))" by simp
next
  fix s env monitorId pc s' pc'
  assume "job_step s env monitorId pc = Continue s' pc'"
  then have "pc_rank pc' < pc_rank pc"
    by (cases pc) (auto simp: job_step_def Let_def split: option.splits if_splits)
  then show "((s', env, monitorId, pc'), (s, env, monitorId, pc))
               \<in> measure (\<lambda>(s, env, monitorId, pc). pc_rank pc)"
    by simp
qed

declare run_from.simps [simp del]

definition as_faults :: "db \<Rightarrow> job_env \<Rightarrow> string \<Rightarrow> job_env" where
  \<comment> \<open>the environment in which the insert of the check result fails by \<open>je_fault\<close> with
      what the schema makes it throw\<close>
  "as_faults s env monitorId =
     (case find (\<lambda>m. m_id m = monitorId) (monitors s) of
        None \<Rightarrow> env
      | Some existingMonitor \<Rightarrow>
          env\<lparr> je_fault := (je_fault env)
                 (InsertCheckResult :=
                    (let results = performHealthCheck (healthCheckInput existingMonitor)
                                     (je_probe env)
                     in checkResultVerdict env
                          \<lparr> cr_userId = None, cr_monitorId = monitorId,
                            cr_status = (if isUp results then Up else Down),
                            cr_responseMs = responseMs results,
                            cr_createdAt = je_createdAt env \<rparr>)) \<rparr>)"

text \<open>
  The system: the store and, for each monitor, the job in flight for it, if any
  (its environment and its position). The queue hands out a job for a monitor only
  while none is in flight for that monitor; jobs of different monitors interleave
  freely.
\<close>

record sys =
  sys_db :: db
  sys_jobs :: "string \<rightharpoonup> job_env \<times> job_pc"

inductive sys_step :: "sys \<Rightarrow> sys \<Rightarrow> bool" where
  start:
    "sys_jobs \<sigma> m = None \<Longrightarrow>
     sys_step \<sigma> (\<sigma>\<lparr>sys_jobs := (sys_jobs \<sigma>)(m \<mapsto> (env, AtSelectMonitor))\<rparr>)"
| advance:
    "sys_jobs \<sigma> m = Some (env, pc) \<Longrightarrow>
     job_step (sys_db \<sigma>) env m pc = Continue s' pc' \<Longrightarrow>
     sys_step \<sigma> \<lparr> sys_db = s', sys_jobs = (sys_jobs \<sigma>)(m \<mapsto> (env, pc')) \<rparr>"
| finish:
    "sys_jobs \<sigma> m = Some (env, pc) \<Longrightarrow>
     job_step (sys_db \<sigma>) env m pc = Finish r \<Longrightarrow>
     sys_step \<sigma> \<lparr> sys_db = jr_db r, sys_jobs = (sys_jobs \<sigma>)(m := None) \<rparr>"

text \<open>
  The states the system reaches from a store in which no monitor has two open
  incidents (an empty incident table, say) and no job is in flight.
\<close>

inductive reachable :: "sys \<Rightarrow> bool" where
  init:
    "(\<And>m. length (openIncidents s m) \<le> 1) \<Longrightarrow>
     reachable \<lparr> sys_db = s, sys_jobs = Map.empty \<rparr>"
| step:
    "reachable \<sigma> \<Longrightarrow> sys_step \<sigma> \<sigma>' \<Longrightarrow> reachable \<sigma>'"


section \<open>Notions used in the statements\<close>

abbreviation userChannels :: "notificationChannel list \<Rightarrow> string \<Rightarrow> notificationChannel list" where
  "userChannels tbl uid \<equiv> filter (\<lambda>c. ch_userId c = uid) tbl"

definition openDuration :: "db \<Rightarrow> string \<Rightarrow> int option" where
  \<comment> \<open>\<^verbatim>\<open>durationMs\<close> of the open incident of a monitor\<close>
  "openDuration s monitorId =
     (case findOpenIncident s monitorId of Some i \<Rightarrow> i_durationMs i | None \<Rightarrow> None)"

definition endAt_null_iff_open :: "db \<Rightarrow> bool" where
  \<comment> \<open>the data invariant of the spec: \<^verbatim>\<open>endAt\<close> is null exactly in the rows with status open\<close>
  "endAt_null_iff_open s =
     list_all (\<lambda>i. (i_endAt i = None) = (i_status i = Open)) (incidents s)"

definition sys_inv :: "sys \<Rightarrow> bool" where
  \<comment> \<open>what every step of the system keeps: no monitor has two open incidents, and a job
      that found none and is about to insert still faces none\<close>
  "sys_inv \<sigma> =
     ((\<forall>m. length (openIncidents (sys_db \<sigma>) m) \<le> 1)
      \<and> (\<forall>m env mon r. sys_jobs \<sigma> m = Some (env, AtInsertIncident mon r)
            \<longrightarrow> openIncidents (sys_db \<sigma>) m = []))"

text \<open>Jobs for one monitor run one after the other, each on the store the last one left.\<close>

fun run_jobs :: "db \<Rightarrow> string \<Rightarrow> job_env list \<Rightarrow> job_result list" where
  "run_jobs s monitorId [] = []"
| "run_jobs s monitorId (env # envs) =
     worker s env monitorId # run_jobs (jr_db (worker s env monitorId)) monitorId envs"

section \<open>Example data\<close>

definition ex_channels :: "notificationChannel list" where
  "ex_channels =
     [\<lparr> ch_id = ''c1'', ch_userId = ''u1'', ch_type = ''email'', ch_value = ''a@b.example'' \<rparr>,
      \<lparr> ch_id = ''c2'', ch_userId = ''u1'', ch_type = ''slack'', ch_value = ''https://hooks.example/s'' \<rparr>,
      \<lparr> ch_id = ''c3'', ch_userId = ''u1'', ch_type = ''webhook'', ch_value = ''https://hooks.example/w'' \<rparr>,
      \<lparr> ch_id = ''c4'', ch_userId = ''u2'', ch_type = ''discord'', ch_value = ''https://hooks.example/d'' \<rparr>]"

definition ex_notify_env :: notify_env where
  \<comment> \<open>mail works, the endpoint of channel c3 refuses the connection, that of c4 answers 404\<close>
  "ex_notify_env =
     \<lparr> ne_transporter = True, ne_SMTP_FROM = Some ''alerts@b.example'', ne_select = None,
       ne_sendMail = (\<lambda>c. None),
       ne_post = (\<lambda>c. if ch_id c = ''c3''
                       then Failed (AxiosError (Some ''ECONNREFUSED'') None ''connect ECONNREFUSED'')
                       else if ch_id c = ''c4'' then Responded 404 ''Not Found''
                       else Responded 200 ''OK'') \<rparr>"

definition ex_payload :: NotificationPayload where
  "ex_payload =
     \<lparr> np_userId = ''u1'', np_title = ''Monitor Alert'', np_message = ''down'',
       np_priority = Some Medium, np_metadata = None \<rparr>"

definition ex_check :: MonitorCheck where
  "ex_check =
     \<lparr> mc_monitorId = ''m1'', mc_url = ''http://a.example'', mc_method = ''GET'',
       mc_expectedStatus = 200, mc_headers = None, mc_userId = ''u1'', mc_name = None \<rparr>"

definition ex_probe :: "int \<Rightarrow> http_outcome \<Rightarrow> probe_env" where
  \<comment> \<open>a probe started at clock 1000 whose target answers or fails after \<open>elapsed\<close> ms\<close>
  "ex_probe elapsed http =
     \<lparr> pe_start = 1000, pe_elapsed = elapsed, pe_http = http,
       pe_end = 1000 + min elapsed 10000 \<rparr>"

definition ex_monitor :: monitor where
  "ex_monitor =
     \<lparr> m_id = ''m1'', m_name = ''API'', m_url = ''https://api.example/health'',
       m_status = UnknownStatus, m_method = ''GET'', m_headers = [],
       m_expectedStatus = 200, m_userId = ''u1'' \<rparr>"

definition ex_incident :: incident where
  "ex_incident =
     \<lparr> i_id = ''i1'', i_monitorId = ''m1'', i_userId = ''u1'', i_status = Open,
       i_startAt = 5000, i_endAt = None, i_durationMs = Some 0,
       i_errorMessage = Some ''Expected 200, got 503'' \<rparr>"

definition ex_db :: "incident list \<Rightarrow> db" where
  "ex_db rows =
     \<lparr> monitors = [ex_monitor], checkResults = [], incidents = rows, channels = ex_channels \<rparr>"

definition ex_violation :: "violation \<Rightarrow> thrown" where
  "ex_violation v =
     (case v of
        NotNull t c \<Rightarrow>
          ErrorObj (''null value in column '' @ c @ '' of relation '' @ t
                    @ '' violates not-null constraint'')
      | IntegerOutOfRange t c \<Rightarrow> ErrorObj ''value out of range for type integer'')"

definition ex_env :: "http_outcome \<Rightarrow> int \<Rightarrow> job_env" where
  \<comment> \<open>a job at time \<open>now\<close>, with no fault of the outside, whose target answers after 50 ms\<close>
  "ex_env http now =
     \<lparr> je_fault = (\<lambda>op. None),
       je_violation = ex_violation,
       je_probe = \<lparr> pe_start = now - 60, pe_elapsed = 50, pe_http = http, pe_end = now - 10 \<rparr>,
       je_createdAt = now - 5, je_now = now, je_newIncidentId = ''i2'',
       je_localeNow = ''1/1/2026, 12:00:00 AM'',
       je_notify = ex_notify_env \<rparr>"

definition ex_envs :: "job_env list" where
  \<comment> \<open>two checks in a row that find the service down\<close>
  "ex_envs =
     [ex_env (Responded 503 ''Service Unavailable'') 6000,
      ex_env (Responded 500 ''Internal Server Error'') 7000]"

section \<open>Properties of the prober\<close>

lemma classify_error_message: "\<exists>sc m et. classify_error e ms = (sc, Some m, et)"
  by (cases e) (auto simp: classify_error_def split: option.splits)

lemma down_has_message:
  assumes "\<not> isUp (performHealthCheck monitor env)"
  shows "\<exists>msg. errorMessage (performHealthCheck monitor env) = Some msg"
proof (cases "axios_request 10000 (\<lambda>st. True) (pe_elapsed env) (pe_http env)")
  case (Inl e)
  obtain sc m et where "classify_error e (pe_end env - pe_start env) = (sc, Some m, et)"
    using classify_error_message by blast
  with Inl show ?thesis by (simp add: performHealthCheck_def)
next
  case (Inr r)
  with assms show ?thesis by (cases r) (simp add: performHealthCheck_def)
qed

text \<open>
  Claim C10: a result with \<open>isUp = False\<close> always carries an error message; the field
  is absent only in a result that is up.
\<close>

theorem performHealthCheck_down_has_message:
  "\<not> isUp (performHealthCheck monitor env) \<Longrightarrow>
     errorMessage (performHealthCheck monitor env) \<noteq> None"
  using down_has_message [of monitor env] by auto

theorem performHealthCheck_down_has_message_witness:
  "\<not> isUp (performHealthCheck ex_check (ex_probe 50 (Responded 503 ''Service Unavailable'')))
   \<and> errorMessage (performHealthCheck ex_check (ex_probe 50 (Responded 503 ''Service Unavailable'')))
       \<noteq> None"
proof -
  have down: "\<not> isUp (performHealthCheck ex_check
                 (ex_probe 50 (Responded 503 ''Service Unavailable'')))"
    by (simp add: performHealthCheck_def axios_request_def axios_settle_def ex_check_def
          ex_probe_def)
  from performHealthCheck_down_has_message [OF down] down show ?thesis by blast
qed

lemma timed_out:
  assumes "10000 < pe_elapsed env"
  shows "performHealthCheck monitor env =
           \<lparr> isUp = False, responseMs = pe_end env - pe_start env, statusCode = None,
             errorMessage = Some (''Request timeout after ''
                                  @ show_int (pe_end env - pe_start env) @ ''ms''),
             errorType = Timeout \<rparr>"
  using assms by (simp add: performHealthCheck_def axios_request_def classify_error_def)

lemma in_time:
  assumes "elapsed \<le> 10000"
  shows "axios_request 10000 (\<lambda>st. True) elapsed out
           = (case out of Responded st txt \<Rightarrow> Inr (st, txt) | Failed e \<Rightarrow> Inl e)"
  using assms by (simp add: axios_request_def axios_settle_def split: http_outcome.splits)

lemma responded_in_time:
  assumes "pe_elapsed env \<le> 10000" and "pe_http env = Responded st txt"
  shows "performHealthCheck monitor env =
           \<lparr> isUp = (st = mc_expectedStatus monitor),
             responseMs = pe_end env - pe_start env, statusCode = Some st,
             errorMessage =
               (if st \<noteq> mc_expectedStatus monitor
                then Some (''Expected '' @ show_int (mc_expectedStatus monitor)
                           @ '', got '' @ show_int st)
                else None),
             errorType = (if st \<noteq> mc_expectedStatus monitor then Status else Unknown) \<rparr>"
  using assms by (simp add: performHealthCheck_def in_time)

lemma failed_in_time:
  assumes "pe_elapsed env \<le> 10000" and "pe_http env = Failed e"
  shows "performHealthCheck monitor env =
           (case classify_error e (pe_end env - pe_start env) of
              (sc, em, et) \<Rightarrow>
                \<lparr> isUp = False, responseMs = pe_end env - pe_start env, statusCode = sc,
                  errorMessage = em, errorType = et \<rparr>)"
  using assms by (simp add: performHealthCheck_def in_time)

text \<open>
  Claim C6: the prober returns a classified result for every probe (it is a total
  function: each path of the \<^verbatim>\<open>try\<close> and of the \<^verbatim>\<open>catch\<close> block ends in the
  \<^verbatim>\<open>return\<close>, and nothing in the \<^verbatim>\<open>catch\<close> block throws). A response with the
  expected status that comes within the budget of 10000 ms is up; a response with
  another status is down with type \<open>Status\<close> and the message "Expected X, got Y";
  a probe whose target takes more than 10000 ms is down with type \<open>Timeout\<close>, whatever
  the target would have answered, and so is one that the network reports as timed out;
  a refused connection or an unresolvable host is down with type \<open>Network\<close>; the
  response time is the difference of the two clock readings in each case.
\<close>

theorem performHealthCheck_classification:
  "(pe_elapsed env \<le> 10000 \<and> pe_http env = Responded st txt
      \<and> st = mc_expectedStatus monitor \<longrightarrow>
      isUp (performHealthCheck monitor env))
   \<and> (pe_elapsed env \<le> 10000 \<and> pe_http env = Responded st txt
      \<and> st \<noteq> mc_expectedStatus monitor \<longrightarrow>
      \<not> isUp (performHealthCheck monitor env)
      \<and> errorType (performHealthCheck monitor env) = Status
      \<and> statusCode (performHealthCheck monitor env) = Some st
      \<and> errorMessage (performHealthCheck monitor env)
          = Some (''Expected '' @ show_int (mc_expectedStatus monitor) @ '', got '' @ show_int st))
   \<and> (10000 < pe_elapsed env \<longrightarrow>
      \<not> isUp (performHealthCheck monitor env)
      \<and> errorType (performHealthCheck monitor env) = Timeout)
   \<and> (pe_elapsed env \<le> 10000 \<and> pe_http env = Failed (AxiosError code resp msg)
        \<and> (code = Some ''ECONNABORTED'' \<or> code = Some ''ETIMEDOUT'') \<longrightarrow>
      \<not> isUp (performHealthCheck monitor env)
      \<and> errorType (performHealthCheck monitor env) = Timeout)
   \<and> (pe_elapsed env \<le> 10000 \<and> pe_http env = Failed (AxiosError code resp msg)
        \<and> (code = Some ''ECONNREFUSED'' \<or> code = Some ''ENOTFOUND'') \<longrightarrow>
      \<not> isUp (performHealthCheck monitor env)
      \<and> errorType (performHealthCheck monitor env) = Network)
   \<and> responseMs (performHealthCheck monitor env) = pe_end env - pe_start env"
proof (intro conjI impI)
  assume "pe_elapsed env \<le> 10000 \<and> pe_http env = Responded st txt
      \<and> st = mc_expectedStatus monitor"
  then show "isUp (performHealthCheck monitor env)" by (simp add: responded_in_time)
next
  assume h: "pe_elapsed env \<le> 10000 \<and> pe_http env = Responded st txt
      \<and> st \<noteq> mc_expectedStatus monitor"
  then have "performHealthCheck monitor env =
           \<lparr> isUp = (st = mc_expectedStatus monitor),
             responseMs = pe_end env - pe_start env, statusCode = Some st,
             errorMessage =
               (if st \<noteq> mc_expectedStatus monitor
                then Some (''Expected '' @ show_int (mc_expectedStatus monitor)
                           @ '', got '' @ show_int st)
                else None),
             errorType = (if st \<noteq> mc_expectedStatus monitor then Status else Unknown) \<rparr>"
    by (simp add: responded_in_time)
  with h show "\<not> isUp (performHealthCheck monitor env)"
    and "errorType (performHealthCheck monitor env) = Status"
    and "statusCode (performHealthCheck monitor env) = Some st"
    and "errorMessage (performHealthCheck monitor env)
          = Some (''Expected '' @ show_int (mc_expectedStatus monitor) @ '', got '' @ show_int st)"
    by simp_all
next
  assume "10000 < pe_elapsed env"
  then show "\<not> isUp (performHealthCheck monitor env)"
    and "errorType (performHealthCheck monitor env) = Timeout"
    by (simp_all add: timed_out)
next
  assume h: "pe_elapsed env \<le> 10000 \<and> pe_http env = Failed (AxiosError code resp msg)
        \<and> (code = Some ''ECONNABORTED'' \<or> code = Some ''ETIMEDOUT'')"
  then have "classify_error (AxiosError code resp msg) (pe_end env - pe_start env)
      = (None, Some (''Request timeout after '' @ show_int (pe_end env - pe_start env) @ ''ms''),
         Timeout)"
    by (auto simp: classify_error_def)
  with h show "\<not> isUp (performHealthCheck monitor env)"
    and "errorType (performHealthCheck monitor env) = Timeout"
    by (simp_all add: failed_in_time)
next
  assume h: "pe_elapsed env \<le> 10000 \<and> pe_http env = Failed (AxiosError code resp msg)
        \<and> (code = Some ''ECONNREFUSED'' \<or> code = Some ''ENOTFOUND'')"
  then have "classify_error (AxiosError code resp msg) (pe_end env - pe_start env)
      = (None, Some (''Network error: '' @ code_str code), Network)"
    by (auto simp: classify_error_def)
  with h show "\<not> isUp (performHealthCheck monitor env)"
    and "errorType (performHealthCheck monitor env) = Network"
    by (simp_all add: failed_in_time)
next
  show "responseMs (performHealthCheck monitor env) = pe_end env - pe_start env"
    by (auto simp: performHealthCheck_def split: sum.splits prod.splits)
qed

theorem performHealthCheck_classification_witness:
  "isUp (performHealthCheck ex_check (ex_probe 50 (Responded 200 ''OK'')))
   \<and> errorMessage (performHealthCheck ex_check (ex_probe 50 (Responded 404 ''Not Found'')))
       = Some ''Expected 200, got 404''
   \<and> errorType (performHealthCheck ex_check (ex_probe 50 (Responded 404 ''Not Found''))) = Status
   \<and> \<not> isUp (performHealthCheck ex_check (ex_probe 60000 (Responded 200 ''OK'')))
   \<and> errorType (performHealthCheck ex_check (ex_probe 60000 (Responded 200 ''OK''))) = Timeout
   \<and> errorType (performHealthCheck ex_check (ex_probe 7
        (Failed (AxiosError (Some ''ENOTFOUND'') None ''getaddrinfo ENOTFOUND a.example''))))
       = Network"
proof -
  have n200: "show_int 200 = ''200''" by code_simp
  have n404: "show_int 404 = ''404''" by code_simp
  have a: "isUp (performHealthCheck ex_check (ex_probe 50 (Responded 200 ''OK'')))"
    using performHealthCheck_classification
      [of "ex_probe 50 (Responded 200 ''OK'')" 200 "''OK''" ex_check]
    by (simp add: ex_check_def ex_probe_def)
  have b: "errorMessage (performHealthCheck ex_check (ex_probe 50 (Responded 404 ''Not Found'')))
             = Some ''Expected 200, got 404''
           \<and> errorType (performHealthCheck ex_check (ex_probe 50 (Responded 404 ''Not Found'')))
             = Status"
    using performHealthCheck_classification
      [of "ex_probe 50 (Responded 404 ''Not Found'')" 404 "''Not Found''" ex_check] n200 n404
    by (simp add: ex_check_def ex_probe_def)
  have c: "\<not> isUp (performHealthCheck ex_check (ex_probe 60000 (Responded 200 ''OK'')))
           \<and> errorType (performHealthCheck ex_check (ex_probe 60000 (Responded 200 ''OK'')))
               = Timeout"
    using performHealthCheck_classification [of "ex_probe 60000 (Responded 200 ''OK'')" _ _ ex_check]
    by (simp add: ex_probe_def)
  have d: "errorType (performHealthCheck ex_check (ex_probe 7
        (Failed (AxiosError (Some ''ENOTFOUND'') None ''getaddrinfo ENOTFOUND a.example''))))
       = Network"
    using performHealthCheck_classification
      [of "ex_probe 7 (Failed (AxiosError (Some ''ENOTFOUND'') None
             ''getaddrinfo ENOTFOUND a.example''))" _ _ ex_check
          "Some ''ENOTFOUND''" None "''getaddrinfo ENOTFOUND a.example''"]
    by (simp add: ex_probe_def)
  from a b c d show ?thesis by blast
qed

text \<open>
  A response above is what the request resolves with. A failure of the client that
  carries a response (an \<^verbatim>\<open>AxiosError\<close> with \<^verbatim>\<open>response\<close> set, and a code that is
  neither a timeout nor a network code) takes the third branch of the \<^verbatim>\<open>catch\<close> block:
  the result is down with type \<open>Status\<close> and the message "HTTP status: text",
  whatever the status.
\<close>

lemma failure_with_response:
  assumes "pe_elapsed env \<le> 10000"
    and "pe_http env = Failed (AxiosError code (Some (st, txt)) msg)"
    and "code \<notin> {Some ''ECONNABORTED'', Some ''ETIMEDOUT'', Some ''ECONNREFUSED'', Some ''ENOTFOUND''}"
    and "st \<noteq> 0"
  shows "performHealthCheck monitor env =
           \<lparr> isUp = False, responseMs = pe_end env - pe_start env, statusCode = Some st,
             errorMessage = Some (''HTTP '' @ show_int st @ '': '' @ txt),
             errorType = Status \<rparr>"
  using assms by (simp add: failed_in_time classify_error_def)

section \<open>Properties of the dispatcher\<close>

lemma push_settled_allSettled:
  "push_settled cs (allSettled task cs) = map task cs"
  by (induction cs) (simp_all add: push_settled_def allSettled_def)

lemma notifyUser_ok:
  assumes "np_userId p \<noteq> []" "np_title p \<noteq> []" "np_message p \<noteq> []" "ne_select env = None"
  shows "notifyUser env tbl p = Inr (map (channel_task env) (userChannels tbl (np_userId p)))"
  using assms by (simp add: notifyUser_def push_settled_allSettled Let_def)

lemma notifyUser_Inr:
  assumes "notifyUser env tbl p = Inr rs"
  shows "rs = map (channel_task env) (userChannels tbl (np_userId p))"
  using assms
  by (auto simp: notifyUser_def push_settled_allSettled Let_def split: if_splits option.splits)

lemma notifyUser_throws:
  assumes "notifyUser env tbl p = Inl e"
  shows "(np_userId p = [] \<or> np_title p = [] \<or> np_message p = [])
           \<and> e = ErrorObj ''Missing required notification parameters''
         \<or> ne_select env = Some e"
  using assms by (auto simp: notifyUser_def Let_def split: if_splits option.splits)

lemma channel_task_cong:
  assumes "ne_transporter env' = ne_transporter env" "ne_SMTP_FROM env' = ne_SMTP_FROM env"
    "ne_sendMail env' c = ne_sendMail env c" "ne_post env' c = ne_post env c"
  shows "channel_task env' c = channel_task env c"
  using assms by (simp add: channel_task_def deliver_def sendEmail_def)

text \<open>
  Claim C7 says that \<^verbatim>\<open>notifyUser\<close> throws only when the query for the channels
  fails. The guard of line 173 throws before any query: with an empty title the call
  throws although the query would succeed and the user has three channels.
\<close>

theorem notifyUser_raises_counterexample:
  "ne_select ex_notify_env = None
   \<and> length (userChannels ex_channels ''u1'') = 3
   \<and> notifyUser ex_notify_env ex_channels (ex_payload \<lparr> np_title := [] \<rparr>)
       = Inl (ErrorObj ''Missing required notification parameters'')"
  by (simp add: ex_notify_env_def ex_channels_def ex_payload_def notifyUser_def)

text \<open>
  Claim C7, amended: for a payload whose user id, title and message are not empty,
  \<^verbatim>\<open>notifyUser\<close> returns one entry per channel of the user, in the order of the
  channels (none for a user without channels), whenever the query for the channels
  succeeds; it throws only what that query throws; and the entry of a channel is the
  same under any two environments that agree on the mail configuration and on what the
  delivery to that channel does, whatever the deliveries to the other channels do.
\<close>

theorem notifyUser_results:
  assumes "np_userId p \<noteq> []" and "np_title p \<noteq> []" and "np_message p \<noteq> []"
  shows "(ne_select env = None \<longrightarrow>
            (\<exists>rs. notifyUser env tbl p = Inr rs
               \<and> length rs = length (userChannels tbl (np_userId p))
               \<and> (\<forall>j < length rs.
                     rs ! j = channel_task env (userChannels tbl (np_userId p) ! j))))
       \<and> (\<forall>e. notifyUser env tbl p = Inl e \<longrightarrow> ne_select env = Some e)
       \<and> (\<forall>env' rs rs' j.
             notifyUser env tbl p = Inr rs \<and> notifyUser env' tbl p = Inr rs'
             \<and> j < length (userChannels tbl (np_userId p))
             \<and> ne_transporter env' = ne_transporter env
             \<and> ne_SMTP_FROM env' = ne_SMTP_FROM env
             \<and> ne_sendMail env' (userChannels tbl (np_userId p) ! j)
                 = ne_sendMail env (userChannels tbl (np_userId p) ! j)
             \<and> ne_post env' (userChannels tbl (np_userId p) ! j)
                 = ne_post env (userChannels tbl (np_userId p) ! j)
             \<longrightarrow> rs' ! j = rs ! j)"
proof (intro conjI impI allI)
  assume "ne_select env = None"
  with assms have "notifyUser env tbl p
      = Inr (map (channel_task env) (userChannels tbl (np_userId p)))"
    by (rule notifyUser_ok)
  then show "\<exists>rs. notifyUser env tbl p = Inr rs
               \<and> length rs = length (userChannels tbl (np_userId p))
               \<and> (\<forall>j < length rs.
                     rs ! j = channel_task env (userChannels tbl (np_userId p) ! j))"
    by simp
next
  fix e assume "notifyUser env tbl p = Inl e"
  from notifyUser_throws [OF this] assms show "ne_select env = Some e" by blast
next
  fix env' rs rs' j
  assume h: "notifyUser env tbl p = Inr rs \<and> notifyUser env' tbl p = Inr rs'
             \<and> j < length (userChannels tbl (np_userId p))
             \<and> ne_transporter env' = ne_transporter env
             \<and> ne_SMTP_FROM env' = ne_SMTP_FROM env
             \<and> ne_sendMail env' (userChannels tbl (np_userId p) ! j)
                 = ne_sendMail env (userChannels tbl (np_userId p) ! j)
             \<and> ne_post env' (userChannels tbl (np_userId p) ! j)
                 = ne_post env (userChannels tbl (np_userId p) ! j)"
  then have rs: "rs = map (channel_task env) (userChannels tbl (np_userId p))"
    and rs': "rs' = map (channel_task env') (userChannels tbl (np_userId p))"
    by (simp_all add: notifyUser_Inr)
  from h have "channel_task env' (userChannels tbl (np_userId p) ! j)
             = channel_task env (userChannels tbl (np_userId p) ! j)"
    by (intro channel_task_cong) simp_all
  with h rs rs' show "rs' ! j = rs ! j" by simp
qed

theorem notifyUser_results_witness:
  "np_userId ex_payload \<noteq> [] \<and> np_title ex_payload \<noteq> [] \<and> np_message ex_payload \<noteq> []
   \<and> ne_select ex_notify_env = None
   \<and> notifyUser ex_notify_env ex_channels ex_payload
       = Inr [\<lparr> nr_channelId = ''c1'', nr_type = ''email'', nr_success = True, nr_error = None \<rparr>,
              \<lparr> nr_channelId = ''c2'', nr_type = ''slack'', nr_success = True, nr_error = None \<rparr>,
              \<lparr> nr_channelId = ''c3'', nr_type = ''webhook'', nr_success = False,
                nr_error = Some ''connect ECONNREFUSED'' \<rparr>]
   \<and> notifyUser ex_notify_env ex_channels (ex_payload \<lparr> np_userId := ''u3'' \<rparr>) = Inr []"
proof -
  have h: "np_userId ex_payload \<noteq> []" "np_title ex_payload \<noteq> []" "np_message ex_payload \<noteq> []"
    by (simp_all add: ex_payload_def)
  have sel: "ne_select ex_notify_env = None" by (simp add: ex_notify_env_def)
  have cs: "userChannels ex_channels (np_userId ex_payload) = take 3 ex_channels"
    by (simp add: ex_channels_def ex_payload_def)
  have t: "map (channel_task ex_notify_env) (take 3 ex_channels)
     = [\<lparr> nr_channelId = ''c1'', nr_type = ''email'', nr_success = True, nr_error = None \<rparr>,
        \<lparr> nr_channelId = ''c2'', nr_type = ''slack'', nr_success = True, nr_error = None \<rparr>,
        \<lparr> nr_channelId = ''c3'', nr_type = ''webhook'', nr_success = False,
          nr_error = Some ''connect ECONNREFUSED'' \<rparr>]"
    by (simp add: ex_channels_def ex_notify_env_def channel_task_def deliver_def sendEmail_def
          sendWebhook_def axios_settle_def falsy_str_def)
  have "ne_select ex_notify_env = None \<longrightarrow>
            (\<exists>rs. notifyUser ex_notify_env ex_channels ex_payload = Inr rs
               \<and> length rs = length (userChannels ex_channels (np_userId ex_payload))
               \<and> (\<forall>j < length rs.
                     rs ! j = channel_task ex_notify_env
                                (userChannels ex_channels (np_userId ex_payload) ! j)))"
    using notifyUser_results [OF h, of ex_notify_env ex_channels] by (rule conjunct1)
  with sel obtain rs where rs: "notifyUser ex_notify_env ex_channels ex_payload = Inr rs"
    and len: "length rs = length (take 3 ex_channels)"
    and nth: "\<forall>j < length rs. rs ! j = channel_task ex_notify_env (take 3 ex_channels ! j)"
    unfolding cs by blast
  have "rs = map (channel_task ex_notify_env) (take 3 ex_channels)"
    using len nth by (intro nth_equalityI) simp_all
  with rs t have a: "notifyUser ex_notify_env ex_channels ex_payload
       = Inr [\<lparr> nr_channelId = ''c1'', nr_type = ''email'', nr_success = True, nr_error = None \<rparr>,
              \<lparr> nr_channelId = ''c2'', nr_type = ''slack'', nr_success = True, nr_error = None \<rparr>,
              \<lparr> nr_channelId = ''c3'', nr_type = ''webhook'', nr_success = False,
                nr_error = Some ''connect ECONNREFUSED'' \<rparr>]"
    by simp
  have h3: "np_userId (ex_payload \<lparr> np_userId := ''u3'' \<rparr>) \<noteq> []"
    "np_title (ex_payload \<lparr> np_userId := ''u3'' \<rparr>) \<noteq> []"
    "np_message (ex_payload \<lparr> np_userId := ''u3'' \<rparr>) \<noteq> []"
    by (simp_all add: ex_payload_def)
  have cs3: "userChannels ex_channels (np_userId (ex_payload \<lparr> np_userId := ''u3'' \<rparr>)) = []"
    by (simp add: ex_channels_def)
  have "ne_select ex_notify_env = None \<longrightarrow>
            (\<exists>rs. notifyUser ex_notify_env ex_channels (ex_payload \<lparr> np_userId := ''u3'' \<rparr>) = Inr rs
               \<and> length rs = length (userChannels ex_channels
                                        (np_userId (ex_payload \<lparr> np_userId := ''u3'' \<rparr>)))
               \<and> (\<forall>j < length rs.
                     rs ! j = channel_task ex_notify_env
                                (userChannels ex_channels
                                   (np_userId (ex_payload \<lparr> np_userId := ''u3'' \<rparr>)) ! j)))"
    using notifyUser_results [OF h3, of ex_notify_env ex_channels] by (rule conjunct1)
  with sel obtain rs3 where
    "notifyUser ex_notify_env ex_channels (ex_payload \<lparr> np_userId := ''u3'' \<rparr>) = Inr rs3"
    and "length rs3 = 0"
    unfolding cs3 by auto
  then have b: "notifyUser ex_notify_env ex_channels (ex_payload \<lparr> np_userId := ''u3'' \<rparr>) = Inr []"
    by simp
  from h sel a b show ?thesis by blast
qed

text \<open>
  Claim C8: for a channel of type slack, discord or webhook whose endpoint answers
  with a status of 500 or more, \<^verbatim>\<open>sendWebhook\<close> throws and the entry of the channel
  has \<open>success = False\<close> with the message of the error; for a status from 400 to 499,
  \<^verbatim>\<open>sendWebhook\<close> does not throw and the dispatcher, whose only check is whether the
  delivery threw, records \<open>success = True\<close>.
\<close>

theorem webhook_status_outcome:
  assumes "notifyUser env tbl p = Inr rs" and "j < length rs"
    and "c = userChannels tbl (np_userId p) ! j"
    and "ch_type c = ''slack'' \<or> ch_type c = ''discord'' \<or> ch_type c = ''webhook''"
    and "ne_post env c = Responded st txt"
  shows "(500 \<le> st \<longrightarrow>
            sendWebhook (ne_post env c) \<noteq> None
            \<and> rs ! j = \<lparr> nr_channelId = ch_id c, nr_type = ch_type c, nr_success = False,
                         nr_error = Some (''Request failed with status code '' @ show_int st) \<rparr>)
       \<and> (400 \<le> st \<and> st < 500 \<longrightarrow>
            sendWebhook (ne_post env c) = None
            \<and> rs ! j = \<lparr> nr_channelId = ch_id c, nr_type = ch_type c, nr_success = True,
                         nr_error = None \<rparr>)"
proof -
  from assms(1) have "rs = map (channel_task env) (userChannels tbl (np_userId p))"
    by (rule notifyUser_Inr)
  with assms(2,3) have entry: "rs ! j = channel_task env c" by simp
  from assms(4) have ty: "ch_type c \<noteq> ''email''" by auto
  show ?thesis
    using assms(4,5) ty
    by (auto simp: entry channel_task_def deliver_def sendWebhook_def axios_settle_def)
qed

theorem webhook_status_outcome_witness:
  "notifyUser ex_notify_env ex_channels (ex_payload \<lparr> np_userId := ''u2'' \<rparr>)
     = Inr [\<lparr> nr_channelId = ''c4'', nr_type = ''discord'', nr_success = True, nr_error = None \<rparr>]
   \<and> ne_post ex_notify_env (ex_channels ! 3) = Responded 404 ''Not Found''
   \<and> sendWebhook (Responded 404 ''Not Found'') = None
   \<and> notifyUser (ex_notify_env \<lparr> ne_post := (\<lambda>c. Responded 503 ''Service Unavailable'') \<rparr>)
        ex_channels (ex_payload \<lparr> np_userId := ''u2'' \<rparr>)
     = Inr [\<lparr> nr_channelId = ''c4'', nr_type = ''discord'', nr_success = False,
              nr_error = Some ''Request failed with status code 503'' \<rparr>]"
proof -
  let ?p = "ex_payload \<lparr> np_userId := ''u2'' \<rparr>"
  let ?env5 = "ex_notify_env \<lparr> ne_post := (\<lambda>c. Responded 503 ''Service Unavailable'') \<rparr>"
  let ?rs = "[channel_task ex_notify_env (ex_channels ! 3)]"
  let ?rs5 = "[channel_task ?env5 (ex_channels ! 3)]"
  have n503: "show_int 503 = ''503''" by code_simp
  have a: "notifyUser ex_notify_env ex_channels ?p = Inr ?rs"
    by (simp add: notifyUser_def ex_notify_env_def ex_channels_def ex_payload_def
          push_settled_def allSettled_def)
  have a5: "notifyUser ?env5 ex_channels ?p = Inr ?rs5"
    by (simp add: notifyUser_def ex_notify_env_def ex_channels_def ex_payload_def
          push_settled_def allSettled_def)
  have b: "ex_channels ! 3 = userChannels ex_channels (np_userId ?p) ! 0"
    by (simp add: ex_channels_def ex_payload_def)
  have c: "ch_type (ex_channels ! 3) = ''slack'' \<or> ch_type (ex_channels ! 3) = ''discord''
           \<or> ch_type (ex_channels ! 3) = ''webhook''"
    by (simp add: ex_channels_def)
  have d: "ne_post ex_notify_env (ex_channels ! 3) = Responded 404 ''Not Found''"
    by (simp add: ex_channels_def ex_notify_env_def)
  have d5: "ne_post ?env5 (ex_channels ! 3) = Responded 503 ''Service Unavailable''"
    by simp
  from webhook_status_outcome [OF a _ b c d] d
  have e: "sendWebhook (Responded 404 ''Not Found'') = None
      \<and> ?rs ! 0 = \<lparr> nr_channelId = ''c4'', nr_type = ''discord'', nr_success = True,
                    nr_error = None \<rparr>"
    by (simp add: ex_channels_def)
  from webhook_status_outcome [OF a5 _ b c d5] n503
  have e5: "?rs5 ! 0 = \<lparr> nr_channelId = ''c4'', nr_type = ''discord'', nr_success = False,
                    nr_error = Some ''Request failed with status code 503'' \<rparr>"
    by (simp add: ex_channels_def)
  from a a5 d e e5 show ?thesis by simp
qed

section \<open>Properties of a job\<close>

lemmas ex_defs = ex_db_def ex_env_def ex_monitor_def ex_incident_def ex_notify_env_def
  ex_channels_def ex_violation_def

lemma filter_map_pres:
  "(\<And>x. P (g x) = P x) \<Longrightarrow> filter P (map g xs) = map g (filter P xs)"
  by (induction xs) simp_all

lemma length_filter_map_le:
  "(\<And>x. P (g x) \<Longrightarrow> P x) \<Longrightarrow> length (filter P (map g xs)) \<le> length (filter P xs)"
  by (induction xs) (auto simp: le_SucI)

lemma find_filter: "find P xs = (case filter P xs of [] \<Rightarrow> None | x # _ \<Rightarrow> Some x)"
  by (induction xs) simp_all

lemma findOpenIncident_hd:
  "findOpenIncident s m = (case openIncidents s m of [] \<Rightarrow> None | i # _ \<Rightarrow> Some i)"
  unfolding findOpenIncident_def openIncidents_def by (rule find_filter)

lemma findOpenIncident_None: "findOpenIncident s m = None \<longleftrightarrow> openIncidents s m = []"
  by (simp add: findOpenIncident_hd split: list.splits)

text \<open>
  Claim C9: a job whose monitor id matches no row of the monitor table completes
  without an error, leaves the store as it was (no status write, no check result, no
  incident created or updated) and calls no notification.
\<close>

theorem worker_missing_monitor:
  assumes "je_fault env SelectMonitor = None"
    and "\<forall>x \<in> set (monitors s). m_id x \<noteq> monitorId"
  shows "worker s env monitorId = \<lparr> jr_db = s, jr_notified = [], jr_error = None \<rparr>"
proof -
  have "find (\<lambda>x. m_id x = monitorId) (monitors s) = None"
    using assms(2) by (simp add: find_None_iff)
  with assms(1) show ?thesis by (simp add: worker_def)
qed

theorem worker_missing_monitor_witness:
  "je_fault (ex_env (Responded 200 ''OK'') 9000) SelectMonitor = None
   \<and> list_all (\<lambda>x. m_id x \<noteq> ''m9'') (monitors (ex_db [ex_incident]))
   \<and> worker (ex_db [ex_incident]) (ex_env (Responded 200 ''OK'') 9000) ''m9''
       = \<lparr> jr_db = ex_db [ex_incident], jr_notified = [], jr_error = None \<rparr>"
proof -
  have a: "je_fault (ex_env (Responded 200 ''OK'') 9000) SelectMonitor = None"
    by (simp add: ex_env_def)
  have b: "\<forall>x \<in> set (monitors (ex_db [ex_incident])). m_id x \<noteq> ''m9''"
    by (simp add: ex_db_def ex_monitor_def)
  from worker_missing_monitor [OF a b] a b show ?thesis by (simp add: list_all_iff)
qed

subsection \<open>The insert of the check result\<close>

text \<open>
  The insert of lines 226 to 231 gives the columns \<^verbatim>\<open>monitorId\<close>, \<^verbatim>\<open>status\<close>,
  \<^verbatim>\<open>responseMs\<close> and \<^verbatim>\<open>createdAt\<close>. The table has one more column that is
  \<^verbatim>\<open>notNull()\<close> and has no default, \<^verbatim>\<open>user_id\<close>, so the database rejects every
  such insert. A job whose monitor exists therefore overwrites the status of the
  monitor, throws at the insert (or before it), and the processor re-throws at line
  369: the code of lines 233 to 363 is never run. No job changes the incident table or
  calls \<^verbatim>\<open>notifyUser\<close>.
\<close>

lemma checkResultVerdict_no_user:
  assumes "cr_userId row = None"
  shows "\<exists>e. checkResultVerdict env row = Some e"
  using assms by (simp add: checkResultVerdict_def verdict_def split: option.splits)

lemma insertCheckResult_no_user:
  assumes "cr_userId row = None"
  shows "\<exists>e. insertCheckResult env s row = Inl e"
  using checkResultVerdict_no_user [OF assms, of env]
  by (auto simp: insertCheckResult_def)

lemma worker_at_insert:
  assumes "find (\<lambda>x. m_id x = m) (monitors s) = Some mon"
    and "je_fault env SelectMonitor = None" and "je_fault env UpdateMonitor = None"
    and "results = performHealthCheck (healthCheckInput mon) (je_probe env)"
  shows "\<exists>e. checkResultVerdict env
                \<lparr> cr_userId = None, cr_monitorId = m,
                  cr_status = (if isUp results then Up else Down),
                  cr_responseMs = responseMs results,
                  cr_createdAt = je_createdAt env \<rparr> = Some e
             \<and> worker s env m =
                 \<lparr> jr_db = s\<lparr>monitors :=
                             map (\<lambda>x. if m_id x = m
                                       then x\<lparr>m_status := (if isUp results then Up else Down)\<rparr>
                                       else x)
                                 (monitors s)\<rparr>,
                   jr_notified = [], jr_error = Some e \<rparr>"
proof -
  let ?row = "\<lparr> cr_userId = None, cr_monitorId = m,
                  cr_status = (if isUp results then Up else Down),
                  cr_responseMs = responseMs results,
                  cr_createdAt = je_createdAt env \<rparr>"
  obtain e where v: "checkResultVerdict env ?row = Some e"
    using checkResultVerdict_no_user [of ?row env] by auto
  have "worker s env m =
                 \<lparr> jr_db = s\<lparr>monitors :=
                             map (\<lambda>x. if m_id x = m
                                       then x\<lparr>m_status := (if isUp results then Up else Down)\<rparr>
                                       else x)
                                 (monitors s)\<rparr>,
                   jr_notified = [], jr_error = Some e \<rparr>"
    using assms(1,2,3) v unfolding assms(4)
    by (simp add: worker_def Let_def insertCheckResult_def)
  with v show ?thesis by blast
qed

lemma worker_stops_at_insert:
  "incidents (jr_db (worker s env m)) = incidents s"
  "checkResults (jr_db (worker s env m)) = checkResults s"
  "channels (jr_db (worker s env m)) = channels s"
  "jr_notified (worker s env m) = []"
proof -
  have "incidents (jr_db (worker s env m)) = incidents s
      \<and> checkResults (jr_db (worker s env m)) = checkResults s
      \<and> channels (jr_db (worker s env m)) = channels s
      \<and> jr_notified (worker s env m) = []"
  proof (cases "find (\<lambda>x. m_id x = m) (monitors s)")
    case None
    then show ?thesis by (simp add: worker_def split: option.splits)
  next
    case (Some mon)
    show ?thesis
    proof (cases "je_fault env SelectMonitor = None \<and> je_fault env UpdateMonitor = None")
      case True
      with worker_at_insert [OF Some _ _ refl, of env] show ?thesis by auto
    next
      case False
      with Some show ?thesis by (auto simp: worker_def Let_def split: option.splits)
    qed
  qed
  then show "incidents (jr_db (worker s env m)) = incidents s"
    "checkResults (jr_db (worker s env m)) = checkResults s"
    "channels (jr_db (worker s env m)) = channels s"
    "jr_notified (worker s env m) = []"
    by simp_all
qed

lemma worker_throws:
  assumes "find (\<lambda>x. m_id x = m) (monitors s) = Some mon"
  shows "\<exists>e. jr_error (worker s env m) = Some e"
proof (cases "je_fault env SelectMonitor = None \<and> je_fault env UpdateMonitor = None")
  case True
  with worker_at_insert [OF assms _ _ refl, of env] show ?thesis by auto
next
  case False
  with assms show ?thesis by (auto simp: worker_def Let_def split: option.splits)
qed

text \<open>
  Claim C1: a job that finds the service up while the monitor has an open incident
  is to set \<open>endAt\<close>, \<open>durationMs\<close> and the status of the incident and to send the
  notification of the resolution. It throws at the insert of the check result instead.
  Here the monitor expects 200 and gets it, the incident was opened at 5000 and the
  job runs at 9000: after the job the incident is as it was, with no \<open>endAt\<close>, and
  nothing was sent.
\<close>

theorem up_job_throws_before_resolving:
  "worker (ex_db [ex_incident]) (ex_env (Responded 200 ''OK'') 9000) ''m1''
     = \<lparr> jr_db = \<lparr> monitors = [ex_monitor \<lparr> m_status := Up \<rparr>], checkResults = [],
                   incidents = [ex_incident], channels = ex_channels \<rparr>,
         jr_notified = [],
         jr_error = Some (ex_violation (NotNull ''check_result'' ''user_id'')) \<rparr>"
  by (simp add: worker_def insertCheckResult_def checkResultVerdict_def verdict_def int4_def
        performHealthCheck_def axios_request_def axios_settle_def healthCheckInput_def
        ex_db_def ex_env_def ex_monitor_def Let_def)

text \<open>
  Claim C5: a job that finds the service down while the monitor has no open incident
  is to create an incident and to send the notification "Service Down". It throws at
  the insert of the check result instead: after the job the incident table is still
  empty and nothing was sent.
\<close>

theorem down_job_throws_before_creating:
  "worker (ex_db []) (ex_env (Responded 503 ''Service Unavailable'') 9000) ''m1''
     = \<lparr> jr_db = \<lparr> monitors = [ex_monitor \<lparr> m_status := Down \<rparr>], checkResults = [],
                   incidents = [], channels = ex_channels \<rparr>,
         jr_notified = [],
         jr_error = Some (ex_violation (NotNull ''check_result'' ''user_id'')) \<rparr>"
  by (simp add: worker_def insertCheckResult_def checkResultVerdict_def verdict_def int4_def
        performHealthCheck_def axios_request_def axios_settle_def healthCheckInput_def
        ex_db_def ex_env_def ex_monitor_def Let_def)

text \<open>
  Claim C4: jobs that find the service down while the monitor has an open incident
  are to update \<open>durationMs\<close> to \<open>now - startAt\<close> and to refresh the error message.
  Each of them throws at the insert of the check result instead. Here the incident was
  opened at 5000 and two jobs run at 6000 and at 7000: no row is added and nothing is
  sent, as the claim says, but the duration stored stays 0 where the claim has 1000 and
  then 2000.
\<close>

theorem down_jobs_throw_before_updating:
  "map (\<lambda>r. (incidents (jr_db r), jr_notified r, jr_error r))
       (run_jobs (ex_db [ex_incident]) ''m1'' ex_envs)
     = [([ex_incident], [], Some (ex_violation (NotNull ''check_result'' ''user_id''))),
        ([ex_incident], [], Some (ex_violation (NotNull ''check_result'' ''user_id'')))]
   \<and> map (\<lambda>r. openDuration (jr_db r) ''m1'') (run_jobs (ex_db [ex_incident]) ''m1'' ex_envs)
     = [Some 0, Some 0]
   \<and> map je_now ex_envs = [6000, 7000]
   \<and> i_startAt ex_incident = 5000"
  by (simp add: ex_envs_def worker_def insertCheckResult_def checkResultVerdict_def verdict_def
        int4_def performHealthCheck_def axios_request_def axios_settle_def healthCheckInput_def
        openDuration_def findOpenIncident_def
        ex_db_def ex_env_def ex_monitor_def ex_incident_def Let_def)

subsection \<open>The branches of the incident on their own\<close>

text \<open>
  What lines 233 to 363 do once they run, that is on a store as the insert of the
  check result would have left it. The branch for a result that is down keeps
  "\<open>endAt\<close> is null exactly when the status is open": a new incident is open with no
  \<open>endAt\<close>, the update of an ongoing one writes neither column. The branch for a result
  that is up writes no status at all.
\<close>

lemma handleDown_endAt_null_iff_open:
  assumes "endAt_null_iff_open s"
  shows "endAt_null_iff_open (jr_db (handleDown s env m mon r))"
  using assms
  by (auto simp: handleDown_def endAt_null_iff_open_def updateIncident_def Let_def list_all_iff
        split: option.splits)

lemma handleUp_writes_no_status:
  "map i_status (incidents (jr_db (handleUp s env m mon r))) = map i_status (incidents s)"
  by (auto simp: handleUp_def updateIncident_def Let_def split: option.splits)

lemma handleUp_resolves:
  assumes "je_fault env SelectIncident = None" and "je_fault env UpdateIncident = None"
    and "findOpenIncident s m = Some inc"
    and "int4 (je_now env - i_startAt inc)"
  shows "incidents (jr_db (handleUp s env m mon r))
           = map (\<lambda>i. if i_id i = i_id inc
                       then i\<lparr> i_endAt := Some (je_now env),
                               i_durationMs := Some (je_now env - i_startAt inc) \<rparr>
                       else i) (incidents s)"
  using assms by (simp add: handleUp_def verdict_def updateIncident_def Let_def)


section \<open>Properties of jobs in flight together\<close>

lemma openIncidents_cong: "incidents s' = incidents s \<Longrightarrow> openIncidents s' m = openIncidents s m"
  by (simp add: openIncidents_def)

lemma job_step_Continue:
  assumes "job_step s env m pc = Continue s' pc'"
  shows "incidents s' = incidents s"
    and "pc' = AtInsertIncident mon r \<Longrightarrow> openIncidents s m = []"
  using assms
  by (cases pc; auto simp: job_step_def findOpenIncident_None Let_def
        split: option.splits if_splits)+

lemma shrinks_update:
  assumes "\<And>i. i_monitorId (f i) = i_monitorId i" "\<And>i. i_endAt (f i) = None \<Longrightarrow> i_endAt i = None"
  shows "length (openIncidents (updateIncident s ident f) m) \<le> length (openIncidents s m)"
proof -
  have "length (filter (\<lambda>i. i_monitorId i = m \<and> i_endAt i = None)
                  (map (\<lambda>i. if i_id i = ident then f i else i) (incidents s)))
        \<le> length (filter (\<lambda>i. i_monitorId i = m \<and> i_endAt i = None) (incidents s))"
    by (rule length_filter_map_le) (auto simp: assms split: if_splits)
  then show ?thesis by (simp add: openIncidents_def updateIncident_def)
qed

lemma job_step_Finish:
  assumes "job_step s env m pc = Finish r"
  shows "(\<forall>m'. length (openIncidents (jr_db r) m') \<le> length (openIncidents s m'))
       \<or> (\<exists>mon res new. pc = AtInsertIncident mon res \<and> i_monitorId new = m
             \<and> incidents (jr_db r) = incidents s @ [new])"
proof (cases pc)
  case (AtUpdateIncident mon res inc)
  have ongoing: "\<And>d e m'. length (openIncidents (updateIncident s (i_id inc)
            (\<lambda>i. i\<lparr> i_durationMs := d, i_errorMessage := e \<rparr>)) m')
          \<le> length (openIncidents s m')"
    by (rule shrinks_update) simp_all
  have resolve: "\<And>t d m'. length (openIncidents (updateIncident s (i_id inc)
            (\<lambda>i. i\<lparr> i_endAt := Some t, i_durationMs := d \<rparr>)) m')
          \<le> length (openIncidents s m')"
    by (rule shrinks_update) simp_all
  from assms AtUpdateIncident show ?thesis
    by (auto simp: job_step_def Let_def ongoing resolve split: option.splits if_splits)
next
  case (AtInsertIncident mon res)
  with assms show ?thesis
    by (auto simp: job_step_def Let_def split: option.splits if_splits)
qed (use assms in \<open>auto simp: job_step_def Let_def split: option.splits if_splits\<close>)

lemma openIncidents_append:
  "incidents s' = incidents s @ [new] \<Longrightarrow>
   openIncidents s' m' =
     openIncidents s m' @ (if i_monitorId new = m' \<and> i_endAt new = None then [new] else [])"
  by (simp add: openIncidents_def)

lemma sys_step_inv:
  assumes "sys_step \<sigma> \<sigma>'" and "sys_inv \<sigma>"
  shows "sys_inv \<sigma>'"
  using assms
proof (induction rule: sys_step.induct)
  case (start \<sigma> m env)
  then show ?case by (auto simp: sys_inv_def)
next
  case (advance \<sigma> m env pc s' pc')
  note c = job_step_Continue [OF advance.hyps(2)]
  have same: "\<And>m'. openIncidents s' m' = openIncidents (sys_db \<sigma>) m'"
    using c(1) by (rule openIncidents_cong)
  show ?case
    using advance.prems c(2) by (auto simp: sys_inv_def same)
next
  case (finish \<sigma> m env pc r)
  from job_step_Finish [OF finish.hyps(2)] show ?case
  proof
    assume le: "\<forall>m'. length (openIncidents (jr_db r) m') \<le> length (openIncidents (sys_db \<sigma>) m')"
    have a: "\<And>m'. length (openIncidents (jr_db r) m') \<le> 1"
      using le finish.prems unfolding sys_inv_def by (meson le_trans)
    have b: "\<And>m'. openIncidents (sys_db \<sigma>) m' = [] \<Longrightarrow> openIncidents (jr_db r) m' = []"
      using le by (metis le_zero_eq length_0_conv list.size(3))
    show ?thesis
      using finish.prems a b by (auto simp: sys_inv_def)
  next
    assume "\<exists>mon res new. pc = AtInsertIncident mon res \<and> i_monitorId new = m
             \<and> incidents (jr_db r) = incidents (sys_db \<sigma>) @ [new]"
    then obtain mon res new where pc: "pc = AtInsertIncident mon res"
      and new: "i_monitorId new = m"
      and app: "incidents (jr_db r) = incidents (sys_db \<sigma>) @ [new]" by blast
    from finish.hyps(1) pc finish.prems have none: "openIncidents (sys_db \<sigma>) m = []"
      by (auto simp: sys_inv_def)
    note oa = openIncidents_append [OF app]
    have a: "\<And>m'. length (openIncidents (jr_db r) m') \<le> 1"
    proof -
      fix m'
      show "length (openIncidents (jr_db r) m') \<le> 1"
      proof (cases "m' = m")
        case True
        then show ?thesis using none by (simp add: oa)
      next
        case False
        then show ?thesis using finish.prems new by (simp add: oa sys_inv_def)
      qed
    qed
    have b: "\<And>m'. m' \<noteq> m \<Longrightarrow> openIncidents (jr_db r) m' = openIncidents (sys_db \<sigma>) m'"
      using new by (simp add: oa)
    show ?thesis
      using finish.prems a b by (auto simp: sys_inv_def)
  qed
qed

lemma reachable_inv: "reachable \<sigma> \<Longrightarrow> sys_inv \<sigma>"
proof (induction rule: reachable.induct)
  case (init s)
  then show ?case by (simp add: sys_inv_def)
next
  case (step \<sigma> \<sigma>')
  then show ?case by (blast intro: sys_step_inv)
qed

subsection \<open>A job running alone is a run of the system\<close>

lemma run_alone_reachable:
  assumes "reachable \<lparr> sys_db = s, sys_jobs = J(m \<mapsto> (env, pc)) \<rparr>" and "J m = None"
  shows "reachable \<lparr> sys_db = jr_db (run_from s env m pc), sys_jobs = J \<rparr>"
  using assms
proof (induction s env m pc rule: run_from.induct)
  case (1 s env m pc)
  let ?\<sigma> = "\<lparr> sys_db = s, sys_jobs = J(m \<mapsto> (env, pc)) \<rparr>"
  show ?case
  proof (cases "job_step s env m pc")
    case (Finish r)
    have "sys_step ?\<sigma> \<lparr> sys_db = jr_db r, sys_jobs = (sys_jobs ?\<sigma>)(m := None) \<rparr>"
      by (rule sys_step.finish [where env = env and pc = pc]) (simp_all add: Finish)
    moreover have "(sys_jobs ?\<sigma>)(m := None) = J"
      using "1.prems"(2) by (auto simp: fun_eq_iff)
    ultimately have "reachable \<lparr> sys_db = jr_db r, sys_jobs = J \<rparr>"
      using "1.prems"(1) reachable.step by metis
    then show ?thesis by (simp add: run_from.simps [of s env m pc] Finish)
  next
    case (Continue s' pc')
    have "sys_step ?\<sigma> \<lparr> sys_db = s', sys_jobs = (sys_jobs ?\<sigma>)(m \<mapsto> (env, pc')) \<rparr>"
      by (rule sys_step.advance [where pc = pc]) (simp_all add: Continue)
    moreover have "(sys_jobs ?\<sigma>)(m \<mapsto> (env, pc')) = J(m \<mapsto> (env, pc'))" by simp
    ultimately have "reachable \<lparr> sys_db = s', sys_jobs = J(m \<mapsto> (env, pc')) \<rparr>"
      using "1.prems"(1) reachable.step by metis
    from "1.IH" [OF Continue this "1.prems"(2)]
    show ?thesis by (simp add: run_from.simps [of s env m pc] Continue)
  qed
qed

lemma run_from_as_faults:
  assumes "find (\<lambda>x. m_id x = m) (monitors s) = Some mon"
    and "results = performHealthCheck (healthCheckInput mon) (je_probe env)"
    and "checkResultVerdict env
           \<lparr> cr_userId = None, cr_monitorId = m,
             cr_status = (if isUp results then Up else Down),
             cr_responseMs = responseMs results,
             cr_createdAt = je_createdAt env \<rparr> = Some e"
  shows "run_from s (as_faults s env m) m AtSelectMonitor =
     (case je_fault env SelectMonitor of
        Some e1 \<Rightarrow> \<lparr> jr_db = s, jr_notified = [], jr_error = Some e1 \<rparr>
      | None \<Rightarrow>
          (case je_fault env UpdateMonitor of
             Some e2 \<Rightarrow> \<lparr> jr_db = s, jr_notified = [], jr_error = Some e2 \<rparr>
           | None \<Rightarrow>
               \<lparr> jr_db = s\<lparr>monitors :=
                           map (\<lambda>x. if m_id x = m
                                     then x\<lparr>m_status := (if isUp results then Up else Down)\<rparr>
                                     else x)
                               (monitors s)\<rparr>,
                 jr_notified = [], jr_error = Some e \<rparr>))"
proof -
  let ?env = "as_faults s env m"
  have f: "je_fault ?env SelectMonitor = je_fault env SelectMonitor"
    "je_fault ?env UpdateMonitor = je_fault env UpdateMonitor"
    "je_fault ?env InsertCheckResult = Some e"
    "je_probe ?env = je_probe env"
    using assms by (simp_all add: as_faults_def Let_def)
  show ?thesis
    using assms(1) f unfolding assms(2)
    by (simp add: run_from.simps [of s ?env m AtSelectMonitor]
          run_from.simps [of _ ?env m "AtUpdateMonitor mon r" for r]
          run_from.simps [of _ ?env m "AtInsertCheckResult mon r" for r]
          job_step_def split: option.splits)
qed

lemma worker_run_from: "worker s env m = run_from s (as_faults s env m) m AtSelectMonitor"
proof (cases "find (\<lambda>x. m_id x = m) (monitors s)")
  case None
  then show ?thesis
    by (simp add: worker_def as_faults_def run_from.simps [of s env m AtSelectMonitor]
          job_step_def split: option.splits)
next
  case (Some mon)
  let ?r = "performHealthCheck (healthCheckInput mon) (je_probe env)"
  let ?row = "\<lparr> cr_userId = None, cr_monitorId = m,
             cr_status = (if isUp ?r then Up else Down),
             cr_responseMs = responseMs ?r,
             cr_createdAt = je_createdAt env \<rparr>"
  obtain e where v: "checkResultVerdict env ?row = Some e"
    using checkResultVerdict_no_user [of ?row env] by auto
  note run = run_from_as_faults [OF Some refl v]
  show ?thesis
  proof (cases "je_fault env SelectMonitor")
    case (Some e1)
    then show ?thesis by (simp add: run worker_def)
  next
    case None
    note sel = None
    show ?thesis
    proof (cases "je_fault env UpdateMonitor")
      case (Some e2)
      with sel \<open>find (\<lambda>x. m_id x = m) (monitors s) = Some mon\<close> show ?thesis
        by (simp add: run worker_def Let_def)
    next
      case None
      from worker_at_insert [OF \<open>find (\<lambda>x. m_id x = m) (monitors s) = Some mon\<close> sel None refl] v
      show ?thesis by (simp add: run sel None)
    qed
  qed
qed

lemma worker_reachable:
  assumes "reachable \<lparr> sys_db = s, sys_jobs = J \<rparr>" and "J m = None"
  shows "reachable \<lparr> sys_db = jr_db (worker s env m), sys_jobs = J \<rparr>"
proof -
  let ?env = "as_faults s env m"
  have "sys_step \<lparr> sys_db = s, sys_jobs = J \<rparr>
          (\<lparr> sys_db = s, sys_jobs = J \<rparr>
             \<lparr>sys_jobs := (sys_jobs \<lparr> sys_db = s, sys_jobs = J \<rparr>)(m \<mapsto> (?env, AtSelectMonitor))\<rparr>)"
    by (rule sys_step.start) (simp add: assms(2))
  with assms(1) have "reachable \<lparr> sys_db = s, sys_jobs = J(m \<mapsto> (?env, AtSelectMonitor)) \<rparr>"
    using reachable.step by fastforce
  from run_alone_reachable [OF this assms(2)] show ?thesis
    by (simp add: worker_run_from)
qed

lemma run_from_creates:
  assumes "je_fault env = (\<lambda>op. None)"
    and "find (\<lambda>x. m_id x = m) (monitors s) = Some mon"
    and "openIncidents s m = []"
    and "\<not> isUp (performHealthCheck (healthCheckInput mon) (je_probe env))"
  shows "incidents (jr_db (run_from s env m AtSelectMonitor))
           = incidents s @
             [\<lparr> i_id = je_newIncidentId env, i_monitorId = m, i_userId = m_userId mon,
                i_status = Open, i_startAt = je_now env, i_endAt = None, i_durationMs = Some 0,
                i_errorMessage = Some (incidentErrorMessage
                  (performHealthCheck (healthCheckInput mon) (je_probe env))) \<rparr>]"
proof -
  from assms(3) have "find (\<lambda>i. i_monitorId i = m \<and> i_endAt i = None) (incidents s) = None"
    using findOpenIncident_None [of s m] by (simp add: findOpenIncident_def)
  then show ?thesis
    using assms(1,2,4)
    by (simp add: run_from.simps [of _ env m AtSelectMonitor]
          run_from.simps [of _ env m "AtUpdateMonitor mon x" for x]
          run_from.simps [of _ env m "AtInsertCheckResult mon x" for x]
          run_from.simps [of _ env m "AtSelectIncident mon x" for x]
          run_from.simps [of _ env m "AtInsertIncident mon x" for x]
          job_step_def findOpenIncident_def Let_def)
qed

text \<open>
  In particular a job on its own keeps the invariant.
\<close>

lemma worker_keeps_single_open:
  assumes "\<And>m. length (openIncidents s m) \<le> 1"
  shows "length (openIncidents (jr_db (worker s env monitorId)) m') \<le> 1"
proof -
  have "reachable \<lparr> sys_db = s, sys_jobs = Map.empty \<rparr>"
    using assms by (rule reachable.init)
  then have "reachable \<lparr> sys_db = jr_db (worker s env monitorId), sys_jobs = Map.empty \<rparr>"
    by (rule worker_reachable) simp
  from reachable_inv [OF this] show ?thesis by (simp add: sys_inv_def)
qed

text \<open>
  The discipline of the queue matters. Two jobs for the same monitor whose statements
  overlap both select before either inserts, both find no open incident, and both
  insert: the steps below leave the monitor with two open incidents. The system above
  never takes them, since it starts a job for a monitor only when none is in flight.
\<close>

lemma overlapping_jobs_two_open:
  "(case job_step (ex_db []) (ex_env (Responded 503 ''Service Unavailable'') 9000) ''m1''
          (AtSelectIncident ex_monitor
             (performHealthCheck (healthCheckInput ex_monitor)
                (ex_probe 50 (Responded 503 ''Service Unavailable'')))) of
      Continue s1 pc1 \<Rightarrow>
        (case job_step s1 (ex_env (Responded 500 ''Internal Server Error'') 9001) ''m1''
                (AtSelectIncident ex_monitor
                   (performHealthCheck (healthCheckInput ex_monitor)
                      (ex_probe 50 (Responded 500 ''Internal Server Error'')))) of
           Continue s2 pc2 \<Rightarrow>
             (case job_step s2 (ex_env (Responded 503 ''Service Unavailable'') 9000) ''m1'' pc1 of
                Finish r1 \<Rightarrow>
                  (case job_step (jr_db r1) (ex_env (Responded 500 ''Internal Server Error'') 9001) ''m1'' pc2 of
                     Finish r2 \<Rightarrow> map i_endAt (openIncidents (jr_db r2) ''m1'')
                   | Continue s4 pc4 \<Rightarrow> [])
              | Continue s3 pc3 \<Rightarrow> [])
         | Finish r \<Rightarrow> [])
    | Finish r \<Rightarrow> []) = [None, None]"
  by (simp add: job_step_def ex_db_def ex_env_def ex_probe_def ex_monitor_def
        performHealthCheck_def axios_request_def axios_settle_def healthCheckInput_def
        findOpenIncident_def openIncidents_def Let_def)

text \<open>
  Claim C2: in every state the system reaches, whatever the interleaving of the
  statements of the jobs in flight (at most one per monitor), the faults and the probe
  results, no monitor has more than one incident with \<open>endAt = null\<close>. The witness is
  the state after the steps of one job that found the service down, each statement
  taken by the database.
\<close>

theorem single_open_incident:
  "reachable \<sigma> \<Longrightarrow> length (openIncidents (sys_db \<sigma>) m) \<le> 1"
  using reachable_inv [of \<sigma>] by (simp add: sys_inv_def)

theorem single_open_incident_witness:
  "reachable \<lparr> sys_db = jr_db (run_from (ex_db [])
                   (ex_env (Responded 503 ''Service Unavailable'') 9000) ''m1'' AtSelectMonitor),
               sys_jobs = Map.empty \<rparr>
   \<and> length (openIncidents (jr_db (run_from (ex_db [])
                   (ex_env (Responded 503 ''Service Unavailable'') 9000) ''m1'' AtSelectMonitor))
               ''m1'') = 1"
proof -
  let ?e = "ex_env (Responded 503 ''Service Unavailable'') 9000"
  let ?s = "jr_db (run_from (ex_db []) ?e ''m1'' AtSelectMonitor)"
  have r0: "reachable \<lparr> sys_db = ex_db [], sys_jobs = Map.empty \<rparr>"
    by (rule reachable.init) (simp add: openIncidents_def ex_db_def)
  have "sys_step \<lparr> sys_db = ex_db [], sys_jobs = Map.empty \<rparr>
          (\<lparr> sys_db = ex_db [], sys_jobs = Map.empty \<rparr>
             \<lparr>sys_jobs := (sys_jobs \<lparr> sys_db = ex_db [], sys_jobs = Map.empty \<rparr>)
                             (''m1'' \<mapsto> (?e, AtSelectMonitor))\<rparr>)"
    by (rule sys_step.start) simp
  with r0 have "reachable \<lparr> sys_db = ex_db [],
                             sys_jobs = Map.empty(''m1'' \<mapsto> (?e, AtSelectMonitor)) \<rparr>"
    using reachable.step by fastforce
  then have r: "reachable \<lparr> sys_db = ?s, sys_jobs = Map.empty \<rparr>"
    by (rule run_alone_reachable) simp
  have "incidents ?s = incidents (ex_db []) @
             [\<lparr> i_id = je_newIncidentId ?e, i_monitorId = ''m1'', i_userId = m_userId ex_monitor,
                i_status = Open, i_startAt = je_now ?e, i_endAt = None, i_durationMs = Some 0,
                i_errorMessage = Some (incidentErrorMessage
                  (performHealthCheck (healthCheckInput ex_monitor) (je_probe ?e))) \<rparr>]"
    by (rule run_from_creates)
       (simp_all add: ex_env_def ex_db_def ex_monitor_def openIncidents_def
          performHealthCheck_def axios_request_def axios_settle_def healthCheckInput_def)
  then have "openIncidents ?s ''m1'' \<noteq> []"
    by (simp add: openIncidents_def)
  with single_open_incident [OF r, of "''m1''"] r show ?thesis
    by (cases "openIncidents ?s ''m1''") (simp_all)
qed

end
